theory Spec2Isabelle
  imports Complex_Main "HOL-Library.Char_ord" "HOL-Library.List_Lexorder"
begin

unbundle bit_operations_syntax

section \<open>Strings\<close>

text \<open>
  Strings are modelled by their UTF-8 encoding, one \<^typ>\<open>char\<close> per byte.  Concatenation,
  comparison and search for an ASCII separator act on the bytes exactly as the JavaScript
  operations act on the text.  Where the source works on characters (\<open>trim\<close>, SQL
  \<open>LIKE\<close>), the model first cuts the bytes into characters: a byte together with the
  continuation bytes (binary \<open>10xxxxxx\<close>) that follow it.
\<close>

definition isContinuation :: "char \<Rightarrow> bool" where
  "isContinuation c \<longleftrightarrow> 128 \<le> (of_char c :: nat) \<and> (of_char c :: nat) < 192"

function utf8_chars :: "string \<Rightarrow> string list" where
  "utf8_chars [] = []"
| "utf8_chars (c # cs) =
     (c # takeWhile isContinuation cs) # utf8_chars (dropWhile isContinuation cs)"
  by pat_completeness auto
termination
  by (relation "measure length") (auto simp: length_dropWhile_le less_Suc_eq_le)

text \<open>
  The characters that \<open>String.prototype.trim\<close> removes: ECMAScript's WhiteSpace and
  LineTerminator code points U+0009 to U+000D, U+0020, U+00A0, U+1680, U+2000 to U+200A,
  U+2028, U+2029, U+202F, U+205F, U+3000 and U+FEFF, each in UTF-8.
\<close>

definition whiteSpaceChars :: "string list" where
  "whiteSpaceChars =
    [[CHR 0x09], [CHR 0x0A], [CHR 0x0B], [CHR 0x0C], [CHR 0x0D], [CHR 0x20],
     [CHR 0xC2, CHR 0xA0],
     [CHR 0xE1, CHR 0x9A, CHR 0x80],
     [CHR 0xE2, CHR 0x80, CHR 0x80], [CHR 0xE2, CHR 0x80, CHR 0x81],
     [CHR 0xE2, CHR 0x80, CHR 0x82], [CHR 0xE2, CHR 0x80, CHR 0x83],
     [CHR 0xE2, CHR 0x80, CHR 0x84], [CHR 0xE2, CHR 0x80, CHR 0x85],
     [CHR 0xE2, CHR 0x80, CHR 0x86], [CHR 0xE2, CHR 0x80, CHR 0x87],
     [CHR 0xE2, CHR 0x80, CHR 0x88], [CHR 0xE2, CHR 0x80, CHR 0x89],
     [CHR 0xE2, CHR 0x80, CHR 0x8A],
     [CHR 0xE2, CHR 0x80, CHR 0xA8], [CHR 0xE2, CHR 0x80, CHR 0xA9],
     [CHR 0xE2, CHR 0x80, CHR 0xAF],
     [CHR 0xE2, CHR 0x81, CHR 0x9F],
     [CHR 0xE3, CHR 0x80, CHR 0x80],
     [CHR 0xEF, CHR 0xBB, CHR 0xBF]]"

definition isWhiteSpace :: "string \<Rightarrow> bool" where
  "isWhiteSpace c \<longleftrightarrow> c \<in> set whiteSpaceChars"

text \<open>\<open>s.trim()\<close>: the white space at both ends goes, everything between stays.\<close>

definition trim :: "string \<Rightarrow> string" where
  "trim s = concat (rev (dropWhile isWhiteSpace (rev (dropWhile isWhiteSpace (utf8_chars s)))))"

text \<open>A string made of white space only.\<close>

definition whiteSpaceOnly :: "string \<Rightarrow> bool" where
  "whiteSpaceOnly w \<longleftrightarrow> list_all isWhiteSpace (utf8_chars w)"

section \<open>Tool identity\<close>

text \<open>
  A tool as an MCP client lists it (\<open>MCPToolInfo\<close>, \<open>ToolInfo\<close>).  Every field is
  optional in the source; \<open>None\<close> is JavaScript's \<open>undefined\<close>.  A schema, the
  parameters of a call and its result are arbitrary JSON values; the model holds each as
  its JSON text, so that \<open>JSON.stringify\<close> of a defined value is the value itself.
\<close>

record MCPToolInfo =
  name :: "string option"
  tool_name :: "string option"
  description :: "string option"
  schema :: "string option"
  outputSchema :: "string option"

text \<open>\<open>a || b\<close> on an optional string: \<open>undefined\<close> and the empty string are falsy.\<close>

fun js_or :: "string option \<Rightarrow> string \<Rightarrow> string" where
  "js_or None b = b"
| "js_or (Some a) b = (if a = [] then b else a)"

text \<open>A template literal prints \<open>undefined\<close> as the nine letters.\<close>

fun template :: "string option \<Rightarrow> string" where
  "template None = ''undefined''"
| "template (Some a) = a"

subsection \<open>MD5\<close>

text \<open>
  \<open>crypto.createHash("md5").update(text, "utf8").digest("hex")\<close>: the MD5 digest of
  RFC 1321 of the bytes of the text, as 32 hexadecimal digits.  A 32-bit word is an
  integer from 0 to 4294967295; sums are reduced modulo 4294967296.  A round is given
  by its constant, its rotation and the index of the message word it reads.
\<close>

definition add32 :: "int \<Rightarrow> int \<Rightarrow> int" where
  "add32 a b = (a + b) mod 4294967296"

definition not32 :: "int \<Rightarrow> int" where
  "not32 x = 4294967295 - x"

definition rotl32 :: "int \<Rightarrow> nat \<Rightarrow> int" where
  "rotl32 x n = (x * 2 ^ n) mod 4294967296 + x div 2 ^ (32 - n)"

definition mixF :: "int \<Rightarrow> int \<Rightarrow> int \<Rightarrow> int" where
  "mixF b c d = (b AND c) OR (not32 b AND d)"

definition mixG :: "int \<Rightarrow> int \<Rightarrow> int \<Rightarrow> int" where
  "mixG b c d = (d AND b) OR (not32 d AND c)"

definition mixH :: "int \<Rightarrow> int \<Rightarrow> int \<Rightarrow> int" where
  "mixH b c d = b XOR c XOR d"

definition mixI :: "int \<Rightarrow> int \<Rightarrow> int \<Rightarrow> int" where
  "mixI b c d = c XOR (b OR not32 d)"

definition roundsF :: "(int \<times> nat \<times> nat) list" where
  "roundsF =
    [(3614090360, 7, 0), (3905402710, 12, 1), (606105819, 17, 2), (3250441966, 22, 3),
     (4118548399, 7, 4), (1200080426, 12, 5), (2821735955, 17, 6), (4249261313, 22, 7),
     (1770035416, 7, 8), (2336552879, 12, 9), (4294925233, 17, 10), (2304563134, 22, 11),
     (1804603682, 7, 12), (4254626195, 12, 13), (2792965006, 17, 14), (1236535329, 22, 15)]"

definition roundsG :: "(int \<times> nat \<times> nat) list" where
  "roundsG =
    [(4129170786, 5, 1), (3225465664, 9, 6), (643717713, 14, 11), (3921069994, 20, 0),
     (3593408605, 5, 5), (38016083, 9, 10), (3634488961, 14, 15), (3889429448, 20, 4),
     (568446438, 5, 9), (3275163606, 9, 14), (4107603335, 14, 3), (1163531501, 20, 8),
     (2850285829, 5, 13), (4243563512, 9, 2), (1735328473, 14, 7), (2368359562, 20, 12)]"

definition roundsH :: "(int \<times> nat \<times> nat) list" where
  "roundsH =
    [(4294588738, 4, 5), (2272392833, 11, 8), (1839030562, 16, 11), (4259657740, 23, 14),
     (2763975236, 4, 1), (1272893353, 11, 4), (4139469664, 16, 7), (3200236656, 23, 10),
     (681279174, 4, 13), (3936430074, 11, 0), (3572445317, 16, 3), (76029189, 23, 6),
     (3654602809, 4, 9), (3873151461, 11, 12), (530742520, 16, 15), (3299628645, 23, 2)]"

definition roundsI :: "(int \<times> nat \<times> nat) list" where
  "roundsI =
    [(4096336452, 6, 0), (1126891415, 10, 7), (2878612391, 15, 14), (4237533241, 21, 5),
     (1700485571, 6, 12), (2399980690, 10, 3), (4293915773, 15, 10), (2240044497, 21, 1),
     (1873313359, 6, 8), (4264355552, 10, 15), (2734768916, 15, 6), (1309151649, 21, 13),
     (4149444226, 6, 4), (3174756917, 10, 11), (718787259, 15, 2), (3951481745, 21, 9)]"

fun md5_rounds ::
  "(int \<Rightarrow> int \<Rightarrow> int \<Rightarrow> int) \<Rightarrow> int list \<Rightarrow> (int \<times> nat \<times> nat) list
     \<Rightarrow> int \<times> int \<times> int \<times> int \<Rightarrow> int \<times> int \<times> int \<times> int" where
  "md5_rounds f m [] st = st"
| "md5_rounds f m ((k, s, g) # rs) (a, b, c, d) =
     md5_rounds f m rs
       (d, add32 b (rotl32 (add32 (add32 (add32 (f b c d) a) k) (m ! g)) s), b, c)"

definition md5_block :: "int list \<Rightarrow> int \<times> int \<times> int \<times> int \<Rightarrow> int \<times> int \<times> int \<times> int" where
  "md5_block m st =
     (case st of (a, b, c, d) \<Rightarrow>
        (case md5_rounds mixI m roundsI (md5_rounds mixH m roundsH
                (md5_rounds mixG m roundsG (md5_rounds mixF m roundsF st))) of
           (a', b', c', d') \<Rightarrow> (add32 a a', add32 b b', add32 c c', add32 d d')))"

fun le_bytes :: "nat \<Rightarrow> int \<Rightarrow> int list" where
  "le_bytes 0 x = []"
| "le_bytes (Suc n) x = x mod 256 # le_bytes n (x div 256)"

fun le_words :: "int list \<Rightarrow> int list" where
  "le_words (b0 # b1 # b2 # b3 # rest) =
     (b0 + 256 * b1 + 65536 * b2 + 16777216 * b3) # le_words rest"
| "le_words rest = []"

definition md5_pad :: "int list \<Rightarrow> int list" where
  "md5_pad bs = bs @ [128] @ replicate ((119 - length bs mod 64) mod 64) 0
     @ le_bytes 8 (8 * int (length bs))"

fun md5_blocks :: "nat \<Rightarrow> int list \<Rightarrow> int \<times> int \<times> int \<times> int \<Rightarrow> int \<times> int \<times> int \<times> int" where
  "md5_blocks 0 ws st = st"
| "md5_blocks (Suc n) ws st = md5_blocks n (drop 16 ws) (md5_block (take 16 ws) st)"

definition hexByte :: "int \<Rightarrow> string" where
  "hexByte b = [''0123456789abcdef'' ! nat (b div 16), ''0123456789abcdef'' ! nat (b mod 16)]"

definition md5hex :: "string \<Rightarrow> string" where
  "md5hex s =
     (let ws = le_words (md5_pad (map of_char s))
      in case md5_blocks (length ws div 16) ws (1732584193, 4023233417, 2562383102, 271733878) of
           (a, b, c, d) \<Rightarrow> concat (map hexByte (concat (map (le_bytes 4) [a, b, c, d]))))"

text \<open>\<open>generateToolMD5(toolName, description = "")\<close>.\<close>

definition generateToolMD5 :: "string \<Rightarrow> string option \<Rightarrow> string" where
  "generateToolMD5 toolName description' =
     md5hex (trim (toolName @ (case description' of None \<Rightarrow> [] | Some d \<Rightarrow> d)))"

text \<open>
  The name and description under which \<open>indexMCPTools\<close> and \<open>findMatchingMCPTools\<close>
  identify a listed tool: \<open>tool.name || tool.tool_name || ""\<close> and
  \<open>tool.description || ""\<close>.
\<close>

definition toolNameOf :: "MCPToolInfo \<Rightarrow> string" where
  "toolNameOf t = js_or (name t) (js_or (tool_name t) [])"

definition descriptionOf :: "MCPToolInfo \<Rightarrow> string" where
  "descriptionOf t = js_or (description t) []"

definition calculatedMD5 :: "MCPToolInfo \<Rightarrow> string" where
  "calculatedMD5 t = generateToolMD5 (toolNameOf t) (Some (descriptionOf t))"

text \<open>
  The digest the executor computes inline for a listed tool:
  the MD5 of the trimmed template literal made of \<open>t.name\<close> and \<open>t.description\<close>.
\<close>

definition executorMD5 :: "MCPToolInfo \<Rightarrow> string" where
  "executorMD5 t = md5hex (trim (template (name t) @ template (description t)))"

section \<open>The database\<close>

text \<open>
  The tables of \<open>database_schema.sql\<close> that the modelled operations touch, each a list of
  rows in insertion order.  The timestamp columns are left out: nothing modelled here
  reads them.  Of \<open>mcp_servers\<close> only the columns read by the retriever are kept.
  The database is taken to be open and initialised, and its statements to succeed: of the
  errors the driver can raise only a failing delete of the indexer is modelled, as the
  predicate \<open>deleteFails\<close> of the environment.  The length of a vector is not compared with
  the declared one.
\<close>

record tool_vector_row =
  tv_id :: nat
  tv_tool_md5 :: string
  tv_model_name :: string
  tv_tool_name :: string
  tv_description :: string

record session_tool_history_row =
  sh_session_id :: string
  sh_tool_md5 :: string
  sh_tool_name :: string

record mcp_server_row =
  ms_server_name :: string
  ms_description :: "string option"
  ms_enabled :: bool

text \<open>
  A vector is a list of reals.  The database stores 32-bit floats and sqlite-vec computes
  the distance in 32-bit arithmetic; that rounding is not modelled, the distance is the
  exact one and comparisons with a threshold are exact.  A similarity that lies on a
  threshold in the model can fall on either side of it in the code, so the scenarios below
  keep every similarity well away from the thresholds they are compared with.
\<close>

type_synonym vector = "real list"

text \<open>
  \<open>tool_mapping\<close> holds pairs \<open>(rowid, tool_id)\<close> and \<open>vec_tool_embeddings\<close> pairs
  \<open>(rowid, tool_vector)\<close>.  The two counters are the last row ids handed out
  (\<open>AUTOINCREMENT\<close>).
\<close>

record database =
  tool_vectors :: "tool_vector_row list"
  vec_tool_embeddings :: "(nat \<times> vector) list"
  tool_mapping :: "(nat \<times> nat) list"
  session_tool_history :: "session_tool_history_row list"
  mcp_servers :: "mcp_server_row list"
  tool_vectors_seq :: nat
  vec_tool_embeddings_seq :: nat

definition emptyDatabase :: database where
  "emptyDatabase = \<lparr>tool_vectors = [], vec_tool_embeddings = [], tool_mapping = [],
     session_tool_history = [], mcp_servers = [], tool_vectors_seq = 0,
     vec_tool_embeddings_seq = 0\<rparr>"

subsection \<open>SQL functions\<close>

text \<open>
  \<open>vec_distance_cosine\<close> of sqlite-vec: one minus the cosine of the angle.  When one of
  the vectors has norm zero the quotient is not a number and the SQL value is \<open>NULL\<close>
  (\<open>None\<close>).
\<close>

definition dot :: "vector \<Rightarrow> vector \<Rightarrow> real" where
  "dot a b = sum_list (map2 (*) a b)"

definition vec_distance_cosine :: "vector \<Rightarrow> vector \<Rightarrow> real option" where
  "vec_distance_cosine a b =
     (if dot a a = 0 \<or> dot b b = 0 then None
      else Some (1 - dot a b / (sqrt (dot a a) * sqrt (dot b b))))"

text \<open>
  SQLite's \<open>LIKE\<close>, as the queries use it (no \<open>ESCAPE\<close> clause, default settings): in the
  pattern \<open>%\<close> stands for any run of characters, \<open>_\<close> for exactly one character, and any
  other character for itself, ASCII letters compared without regard to case.
\<close>

definition lowerCode :: "char \<Rightarrow> nat" where
  "lowerCode c = (let n = of_char c in if 65 \<le> n \<and> n \<le> 90 then n + 32 else n)"

definition utf8_skip :: "string \<Rightarrow> string" where
  "utf8_skip s =
     (case s of [] \<Rightarrow> []
      | c # cs \<Rightarrow> if 192 \<le> (of_char c :: nat) then dropWhile isContinuation cs else cs)"

function like :: "string \<Rightarrow> string \<Rightarrow> bool" where
  "like [] s = (s = [])"
| "like (p # ps) s =
     (if p = CHR ''%'' then
        (if like ps s then True else if s = [] then False else like (p # ps) (utf8_skip s))
      else if s = [] then False
      else if p = CHR ''_'' then like ps (utf8_skip s)
      else lowerCode p = lowerCode (hd s) \<and> like ps (tl s))"
  by pat_completeness auto
termination
proof (relation "measure (\<lambda>(p, s). length p + length s)")
  show "wf (measure (\<lambda>(p, s). length p + length s))" by simp
next
  fix p :: char and ps s :: string
  assume "s \<noteq> []"
  then have "length (utf8_skip s) < length s"
    by (cases s) (auto simp: utf8_skip_def length_dropWhile_le less_Suc_eq_le)
  then show "((p # ps, utf8_skip s), p # ps, s) \<in> measure (\<lambda>(p, s). length p + length s)"
    and "((ps, utf8_skip s), p # ps, s) \<in> measure (\<lambda>(p, s). length p + length s)"
    by simp_all
qed (auto simp: neq_Nil_conv)

subsection \<open>Similarity search\<close>

record SearchResult =
  sr_id :: nat
  sr_tool_md5 :: string
  sr_model_name :: string
  sr_tool_name :: string
  sr_description :: string
  sr_distance :: real
  sr_similarity :: real

text \<open>
  The rows of \<open>vec_tool_embeddings JOIN tool_mapping JOIN tool_vectors\<close>, with the columns
  the query selects for the query vector \<open>q\<close>.  A row whose distance is \<open>NULL\<close> fails the
  comparison with the threshold in the \<open>WHERE\<close> clause of every query, whatever the
  threshold: such rows are left out here.
\<close>

definition joinedRows :: "database \<Rightarrow> vector \<Rightarrow> SearchResult list" where
  "joinedRows db q =
     [\<lparr>sr_id = tv_id tv, sr_tool_md5 = tv_tool_md5 tv, sr_model_name = tv_model_name tv,
       sr_tool_name = tv_tool_name tv, sr_description = tv_description tv,
       sr_distance = distance, sr_similarity = 1 - distance\<rparr>.
      (rowid, v) \<leftarrow> vec_tool_embeddings db,
      distance \<leftarrow> (case vec_distance_cosine v q of Some x \<Rightarrow> [x] | None \<Rightarrow> []),
      (mrowid, toolId) \<leftarrow> tool_mapping db, mrowid = rowid,
      tv \<leftarrow> tool_vectors db, tv_id tv = toolId]"

text \<open>
  \<open>searchSimilarVectors(queryVector, limit, threshold, serverNames)\<close>.  With a non-empty
  list of server names the query adds one \<open>tv.tool_name LIKE ?\<close> per name, bound to the
  name followed by \<open>__%\<close>.  \<open>ORDER BY distance ASC LIMIT ?\<close> is a stable sort of the
  selected rows followed by \<open>take\<close>; SQL leaves the order of rows at equal distance open.
\<close>

definition serverParams :: "string list \<Rightarrow> string list" where
  "serverParams serverNames = map (\<lambda>serverName. serverName @ ''__%'') serverNames"

definition searchSimilarVectors ::
  "database \<Rightarrow> vector \<Rightarrow> nat \<Rightarrow> real \<Rightarrow> string list option \<Rightarrow> SearchResult list" where
  "searchSimilarVectors db queryVector limit threshold serverNames =
     (case serverNames of
        Some (n # ns) \<Rightarrow>
          take limit (sort_key sr_distance
            (filter (\<lambda>r. sr_similarity r \<ge> threshold
                \<and> list_ex (\<lambda>pat. like pat (sr_tool_name r)) (serverParams (n # ns)))
              (joinedRows db queryVector)))
      | _ \<Rightarrow>
          take limit (sort_key sr_distance
            (filter (\<lambda>r. sr_similarity r \<ge> threshold) (joinedRows db queryVector))))"

subsection \<open>Writing and deleting tools\<close>

definition getToolByMD5 :: "database \<Rightarrow> string \<Rightarrow> string \<Rightarrow> tool_vector_row option" where
  "getToolByMD5 db toolMD5 modelName =
     find (\<lambda>r. tv_tool_md5 r = toolMD5 \<and> tv_model_name r = modelName) (tool_vectors db)"

text \<open>The row id of an insert: one more than every id in the table and than the counter.\<close>

definition nextRowId :: "nat \<Rightarrow> nat list \<Rightarrow> nat" where
  "nextRowId seq ids = Suc (fold max ids seq)"

text \<open>
  \<open>saveToolVector(toolName, description, vector, modelName)\<close>: update the row found under
  \<open>(tool_md5, model_name)\<close> or insert a new one, then insert the vector under a new row id
  and \<open>INSERT OR REPLACE\<close> the mapping row keyed by that row id.  Returns the tool id.
\<close>

definition saveToolVector ::
  "database \<Rightarrow> string \<Rightarrow> string \<Rightarrow> vector \<Rightarrow> string \<Rightarrow> database \<times> nat" where
  "saveToolVector db toolName description' vector modelName =
     (let toolMD5 = generateToolMD5 toolName (Some description');
          (db1, toolId) =
            (case find (\<lambda>r. tv_tool_md5 r = toolMD5 \<and> tv_model_name r = modelName) (tool_vectors db) of
               Some existing \<Rightarrow>
                 (db\<lparr>tool_vectors :=
                      map (\<lambda>r. if tv_id r = tv_id existing
                                then r\<lparr>tv_tool_name := toolName, tv_description := description'\<rparr>
                                else r) (tool_vectors db)\<rparr>,
                  tv_id existing)
             | None \<Rightarrow>
                 (let newId = nextRowId (tool_vectors_seq db) (map tv_id (tool_vectors db))
                  in (db\<lparr>tool_vectors := tool_vectors db @
                          [\<lparr>tv_id = newId, tv_tool_md5 = toolMD5, tv_model_name = modelName,
                            tv_tool_name = toolName, tv_description = description'\<rparr>],
                        tool_vectors_seq := newId\<rparr>,
                      newId)));
          vecRowId = nextRowId (vec_tool_embeddings_seq db1) (map fst (vec_tool_embeddings db1))
      in (db1\<lparr>vec_tool_embeddings := vec_tool_embeddings db1 @ [(vecRowId, vector)],
              vec_tool_embeddings_seq := vecRowId,
              tool_mapping :=
                filter (\<lambda>m. fst m \<noteq> vecRowId) (tool_mapping db1) @ [(vecRowId, toolId)]\<rparr>,
          toolId))"

text \<open>\<open>saveToolVectorsBatch\<close>: one transaction that saves the tools in order.\<close>

fun saveToolVectorsBatch ::
  "database \<Rightarrow> (string \<times> string \<times> vector) list \<Rightarrow> string \<Rightarrow> database \<times> nat list" where
  "saveToolVectorsBatch db [] modelName = (db, [])"
| "saveToolVectorsBatch db ((toolName, description', vector) # toolsData) modelName =
     (let (db1, result) = saveToolVector db toolName description' vector modelName;
          (db2, results) = saveToolVectorsBatch db1 toolsData modelName
      in (db2, result # results))"

text \<open>
  \<open>deleteToolVector(toolMD5, modelName = null)\<close>.  A model name that is \<open>null\<close> or empty
  selects the rows of every model.  For each selected tool id the vectors its mapping rows
  point to go first, then its mapping rows; last the selected rows of \<open>tool_vectors\<close>.
  Returns the number of deleted tool rows.
\<close>

definition selectedForDelete :: "string \<Rightarrow> string option \<Rightarrow> tool_vector_row \<Rightarrow> bool" where
  "selectedForDelete toolMD5 modelName r =
     (case modelName of
        Some (c # cs) \<Rightarrow> tv_tool_md5 r = toolMD5 \<and> tv_model_name r = c # cs
      | _ \<Rightarrow> tv_tool_md5 r = toolMD5)"

definition deleteMappedVectors :: "nat \<Rightarrow> database \<Rightarrow> database" where
  "deleteMappedVectors toolId db =
     (let mappings = map fst (filter (\<lambda>m. snd m = toolId) (tool_mapping db))
      in db\<lparr>vec_tool_embeddings := filter (\<lambda>e. fst e \<notin> set mappings) (vec_tool_embeddings db),
            tool_mapping := filter (\<lambda>m. snd m \<noteq> toolId) (tool_mapping db)\<rparr>)"

definition deleteToolVector :: "database \<Rightarrow> string \<Rightarrow> string option \<Rightarrow> database \<times> nat" where
  "deleteToolVector db toolMD5 modelName =
     (let toolIds = map tv_id (filter (selectedForDelete toolMD5 modelName) (tool_vectors db))
      in if toolIds = [] then (db, 0)
         else (let db1 = fold deleteMappedVectors toolIds db
               in (db1\<lparr>tool_vectors :=
                         filter (\<lambda>r. \<not> selectedForDelete toolMD5 modelName r) (tool_vectors db1)\<rparr>,
                   length (filter (selectedForDelete toolMD5 modelName) (tool_vectors db1)))))"

section \<open>The indexer\<close>

text \<open>
  \<open>identifySimilarToolsToDelete\<close>: the candidates whose vector similarity reaches the
  threshold.  The name similarity the source also computes is only logged.
\<close>

definition identifySimilarToolsToDelete :: "SearchResult list \<Rightarrow> real \<Rightarrow> SearchResult list" where
  "identifySimilarToolsToDelete similarTools similarityThreshold =
     filter (\<lambda>similar. sr_similarity similar \<ge> similarityThreshold) similarTools"

text \<open>
  What surrounds the indexer, the retriever and the executor:
  \<^item> the embedding service \<open>vectorizeString\<close>, which returns a vector or throws (\<open>Inl\<close>
    holds the message of what is thrown);
  \<^item> the model name in force, \<open>EMBEDDING_MODEL_NAME\<close> or its default;
  \<^item> \<open>deleteFails\<close>, which says for a database and a digest whether the delete
    transaction throws there; a transaction that throws leaves the database as it was;
  \<^item> \<open>getTools\<close>, what \<open>mcpClient.getTools()\<close> resolves to or throws, and \<open>invoke\<close>,
    the method of a listed tool, from the parameters to the result or to what it throws;
  \<^item> \<open>topK\<close> and \<open>threshold\<close>, read from \<open>TOOL_RETRIEVER_TOP_K\<close> and
    \<open>TOOL_RETRIEVER_THRESHOLD\<close>.
\<close>

record environment =
  vectorizeString :: "string \<Rightarrow> string + vector"
  defaultModelName :: string
  deleteFails :: "database \<Rightarrow> string \<Rightarrow> bool"
  getTools :: "string + MCPToolInfo list"
  invoke :: "MCPToolInfo \<Rightarrow> string \<Rightarrow> string + string"
  topK :: nat
  threshold :: real

text \<open>
  The inner loop \<open>for (const oldTool of toDelete)\<close>: a delete that throws is caught and
  logged, and the loop goes on.
\<close>

definition deleteOldTool :: "environment \<Rightarrow> SearchResult \<Rightarrow> database \<Rightarrow> database" where
  "deleteOldTool env oldTool db =
     (if deleteFails env db (sr_tool_md5 oldTool) then db
      else fst (deleteToolVector db (sr_tool_md5 oldTool) (Some (defaultModelName env))))"

text \<open>
  Step 2 of the loop body for a tool whose vector is \<open>vector\<close>: search with
  \<open>searchSimilarVectors(queryVector, 10, 0.7)\<close> and delete what
  \<open>identifySimilarToolsToDelete(..., 0.96)\<close> returns.
\<close>

definition deleteSimilarTools :: "environment \<Rightarrow> database \<Rightarrow> vector \<Rightarrow> database" where
  "deleteSimilarTools env db vector =
     (let similarTools = searchSimilarVectors db vector 10 (7 / 10) None
      in if similarTools \<noteq> []
         then fold (deleteOldTool env) (identifySimilarToolsToDelete similarTools (96 / 100)) db
         else db)"

text \<open>
  The loop over \<open>toolsToVectorize\<close>: a tool whose embedding throws is skipped with a
  warning; the others are cleaned up after and collected for the batch save.
\<close>

fun vectorizeTools ::
  "environment \<Rightarrow> database \<Rightarrow> (string \<times> string) list \<Rightarrow> database \<times> (string \<times> string \<times> vector) list" where
  "vectorizeTools env db [] = (db, [])"
| "vectorizeTools env db ((toolName, description') # rest) =
     (case vectorizeString env (trim (toolName @ '' '' @ description')) of
        Inl err \<Rightarrow> vectorizeTools env db rest
      | Inr vector \<Rightarrow>
          (let (db1, vectorizedTools) = vectorizeTools env (deleteSimilarTools env db vector) rest
           in (db1, (toolName, description', vector) # vectorizedTools)))"

text \<open>The tools that have a name and are not yet stored under the model.\<close>

definition toolsToVectorize :: "environment \<Rightarrow> database \<Rightarrow> MCPToolInfo list \<Rightarrow> (string \<times> string) list" where
  "toolsToVectorize env db tools =
     map (\<lambda>tool. (toolNameOf tool, descriptionOf tool))
       (filter (\<lambda>tool. toolNameOf tool \<noteq> []
            \<and> getToolByMD5 db (calculatedMD5 tool) (defaultModelName env) = None)
          tools)"

text \<open>\<open>indexMCPTools\<close> for the tools the client lists; returns the ids of the saved rows.\<close>

definition indexMCPTools :: "environment \<Rightarrow> database \<Rightarrow> MCPToolInfo list \<Rightarrow> database \<times> nat list" where
  "indexMCPTools env db tools =
     (let todo = toolsToVectorize env db tools
      in if todo = [] then (db, [])
         else (let (db1, vectorizedTools) = vectorizeTools env db todo
               in saveToolVectorsBatch db1 vectorizedTools (defaultModelName env)))"

section \<open>Session history\<close>

text \<open>
  \<open>getSessionHistory\<close>: the rows of the session, \<open>ORDER BY retrieved_at DESC\<close>.  The
  column \<open>retrieved_at\<close> is not modelled.  The model returns the rows latest insertion
  first, which is the order of the code when no two rows of the session were inserted
  within the same second; rows inserted within one second, as those of one batch, come in
  the code in the order the database picks for equal keys.  The retriever reads from the
  result only the set of its digests and whether it is empty.
\<close>

definition getSessionHistory :: "database \<Rightarrow> string \<Rightarrow> session_tool_history_row list" where
  "getSessionHistory db sessionId =
     rev (filter (\<lambda>h. sh_session_id h = sessionId) (session_tool_history db))"

text \<open>
  \<open>recordSessionToolRetrieval\<close> is an \<open>INSERT OR IGNORE\<close> under the unique key
  \<open>(session_id, tool_md5)\<close>.  The source returns the new row id or \<open>null\<close>; the model
  returns whether a row was inserted.
\<close>

definition recordSessionToolRetrieval ::
  "database \<Rightarrow> string \<Rightarrow> string \<Rightarrow> string \<Rightarrow> database \<times> bool" where
  "recordSessionToolRetrieval db sessionId toolMD5 toolName =
     (if list_ex (\<lambda>h. sh_session_id h = sessionId \<and> sh_tool_md5 h = toolMD5)
           (session_tool_history db)
      then (db, False)
      else (db\<lparr>session_tool_history := session_tool_history db @
               [\<lparr>sh_session_id = sessionId, sh_tool_md5 = toolMD5, sh_tool_name = toolName\<rparr>]\<rparr>,
            True))"

text \<open>\<open>recordSessionToolRetrievalBatch\<close>; the number returned counts the inserted rows.\<close>

fun recordSessionToolRetrievalBatch ::
  "database \<Rightarrow> string \<Rightarrow> (string \<times> string) list \<Rightarrow> database \<times> nat" where
  "recordSessionToolRetrievalBatch db sessionId [] = (db, 0)"
| "recordSessionToolRetrievalBatch db sessionId ((toolMD5, toolName) # tools) =
     (let (db1, inserted) = recordSessionToolRetrieval db sessionId toolMD5 toolName;
          (db2, n) = recordSessionToolRetrievalBatch db1 sessionId tools
      in (db2, if inserted then Suc n else n))"

section \<open>Recommendation\<close>

record MatchedTool =
  mt_similarity :: real
  mt_distance :: real
  mt_tool_md5 :: string
  mt_mcp_tool :: MCPToolInfo
  mt_tool_name :: string
  mt_description :: string

record RecommendationResult =
  rec_rank :: nat
  rec_tool_name :: string
  rec_similarity :: real
  rec_distance :: real
  rec_tool_md5 :: string
  rec_description :: "string option"
  rec_mcp_tool :: "MCPToolInfo option"

text \<open>\<open>searchSimilarTools\<close>: embed the query, then search.\<close>

definition searchSimilarTools ::
  "environment \<Rightarrow> database \<Rightarrow> string \<Rightarrow> nat \<Rightarrow> real \<Rightarrow> string list option
     \<Rightarrow> string + SearchResult list" where
  "searchSimilarTools env db query' k thr serverNames =
     (case vectorizeString env query' of
        Inl err \<Rightarrow> Inl err
      | Inr queryVector \<Rightarrow> Inr (searchSimilarVectors db queryVector k thr serverNames))"

text \<open>
  \<open>findMatchingMCPTools\<close>: for each similar tool, the first listed tool whose digest is
  the stored one; a similar tool without such a listed tool is dropped.
\<close>

definition findMatchingMCPTools :: "environment \<Rightarrow> SearchResult list \<Rightarrow> string + MatchedTool list" where
  "findMatchingMCPTools env similarTools =
     (case getTools env of
        Inl err \<Rightarrow> Inl err
      | Inr availableTools \<Rightarrow>
          Inr (concat (map (\<lambda>similarTool.
            (case find (\<lambda>mcpTool. calculatedMD5 mcpTool = sr_tool_md5 similarTool)
                    availableTools of
               None \<Rightarrow> []
             | Some mcpTool \<Rightarrow>
                 [\<lparr>mt_similarity = sr_similarity similarTool, mt_distance = sr_distance similarTool,
                   mt_tool_md5 = sr_tool_md5 similarTool, mt_mcp_tool = mcpTool,
                   mt_tool_name = toolNameOf mcpTool, mt_description = descriptionOf mcpTool\<rparr>]))
            similarTools)))"

text \<open>\<open>recommendTools\<close>; the rank is the position among the matched tools, from 1.\<close>

definition recommendTools ::
  "environment \<Rightarrow> database \<Rightarrow> string \<Rightarrow> nat \<Rightarrow> real \<Rightarrow> bool \<Rightarrow> string list option
     \<Rightarrow> string + RecommendationResult list" where
  "recommendTools env db query' k thr includeDetails serverNames =
     (case searchSimilarTools env db query' k thr serverNames of
        Inl err \<Rightarrow> Inl err
      | Inr similarTools \<Rightarrow>
          if similarTools = [] then Inr []
          else (case findMatchingMCPTools env similarTools of
                  Inl err \<Rightarrow> Inl err
                | Inr matchedTools \<Rightarrow>
                    Inr (map (\<lambda>(index, tool).
                      \<lparr>rec_rank = index + 1, rec_tool_name = mt_tool_name tool,
                       rec_similarity = mt_similarity tool, rec_distance = mt_distance tool,
                       rec_tool_md5 = mt_tool_md5 tool,
                       rec_description = (if includeDetails then Some (mt_description tool) else None),
                       rec_mcp_tool = (if includeDetails then Some (mt_mcp_tool tool) else None)\<rparr>)
                      (enumerate 0 matchedTools))))"

section \<open>The server description\<close>

text \<open>\<open>s.split("__")\<close> and \<open>parts.join(sep)\<close>.\<close>

fun splitAt2 :: "string \<Rightarrow> string \<Rightarrow> string list" where
  "splitAt2 cur [] = [rev cur]"
| "splitAt2 cur [c] = [rev (c # cur)]"
| "splitAt2 cur (c # d # cs) =
     (if c = CHR ''_'' \<and> d = CHR ''_'' then rev cur # splitAt2 [] cs
      else splitAt2 (c # cur) (d # cs))"

definition splitUnderscores :: "string \<Rightarrow> string list" where
  "splitUnderscores s = splitAt2 [] s"

fun join :: "string \<Rightarrow> string list \<Rightarrow> string" where
  "join sep [] = []"
| "join sep [x] = x"
| "join sep (x # y # ys) = x @ sep @ join sep (y # ys)"

text \<open>The literals of the source that are not ASCII, as their UTF-8 bytes.\<close>

definition toolsLabel :: string where
  "toolsLabel = [CHR 0x20, CHR ''-'', CHR 0x20, CHR 0xE5, CHR 0xB7, CHR 0xA5, CHR 0xE5, CHR 0x85,
     CHR 0xB7, CHR '':'', CHR 0x20]"

definition serversPrefix :: string where
  "serversPrefix = [CHR 0xE5, CHR 0xBD, CHR 0x93, CHR 0xE5, CHR 0x89, CHR 0x8D, CHR 0xE5, CHR 0x8F,
     CHR 0xAF, CHR 0xE4, CHR 0xBB, CHR 0xA5, CHR 0xE4, CHR 0xBD, CHR 0xBF, CHR 0xE7, CHR 0x94,
     CHR 0xA8, CHR 0xE7, CHR 0x9A, CHR 0x84, CHR 0xE6, CHR 0x9C, CHR 0x8D, CHR 0xE5, CHR 0x8A,
     CHR 0xA1, CHR 0xE5, CHR 0x99, CHR 0xA8, CHR 0xEF, CHR 0xBC, CHR 0x9A]"

definition serversSeparator :: string where
  "serversSeparator = [CHR 0xE3, CHR 0x80, CHR 0x81]"

definition serversSuffix :: string where
  "serversSuffix = [CHR 0xEF, CHR 0xBC, CHR 0x8C, CHR 0xE5, CHR 0x8A, CHR 0xA1, CHR 0xE5, CHR 0xBF,
     CHR 0x85, CHR 0xE4, CHR 0xB8, CHR 0x8D, CHR 0xE8, CHR 0xA6, CHR 0x81, CHR 0xE7, CHR 0x9B,
     CHR 0xB4, CHR 0xE6, CHR 0x8E, CHR 0xA5, CHR 0xE4, CHR 0xBD, CHR 0xBF, CHR 0xE7, CHR 0x94,
     CHR 0xA8, CHR 0xE5, CHR 0xAE, CHR 0x83, CHR 0xE4, CHR 0xBB, CHR 0xAC, CHR 0xEF, CHR 0xBC,
     CHR 0x8C, CHR 0xE5, CHR 0x8F, CHR 0xAA, CHR 0xE5, CHR 0x8F, CHR 0xAF, CHR 0xE4, CHR 0xBB,
     CHR 0xA5, CHR 0xE4, CHR 0xBD, CHR 0xBF, CHR 0xE7, CHR 0x94, CHR 0xA8, CHR 0xE5, CHR 0xAE,
     CHR 0x83, CHR 0xE4, CHR 0xBB, CHR 0xAC, CHR 0xE7, CHR 0x94, CHR 0xA8, CHR 0xE6, CHR 0x9D,
     CHR 0xA5, CHR 0xE6, CHR 0xA3, CHR 0x80, CHR 0xE7, CHR 0xB4, CHR 0xA2, CHR 0xEF, CHR 0xBC,
     CHR 0x81]"

definition retrieverFailedPrefix :: string where
  "retrieverFailedPrefix = [CHR 0xE5, CHR 0xB7, CHR 0xA5, CHR 0xE5, CHR 0x85, CHR 0xB7, CHR 0xE6,
     CHR 0xA3, CHR 0x80, CHR 0xE7, CHR 0xB4, CHR 0xA2, CHR 0xE5, CHR 0xA4, CHR 0xB1, CHR 0xE8,
     CHR 0xB4, CHR 0xA5, CHR '':'', CHR 0x20]"

definition notFoundPrefix :: string where
  "notFoundPrefix = [CHR 0xE6, CHR 0x9C, CHR 0xAA, CHR 0xE6, CHR 0x89, CHR 0xBE, CHR 0xE5, CHR 0x88,
     CHR 0xB0, CHR ''m'', CHR ''d'', CHR ''5'', CHR 0xE4, CHR 0xB8, CHR 0xBA]"

definition notFoundSuffix :: string where
  "notFoundSuffix = [CHR 0xE7, CHR 0x9A, CHR 0x84, CHR 0xE5, CHR 0xB7, CHR 0xA5, CHR 0xE5, CHR 0x85,
     CHR 0xB7]"

definition executorFailedPrefix :: string where
  "executorFailedPrefix = [CHR 0xE5, CHR 0xB7, CHR 0xA5, CHR 0xE5, CHR 0x85, CHR 0xB7, CHR 0xE6,
     CHR 0x89, CHR 0xA7, CHR 0xE8, CHR 0xA1, CHR 0x8C, CHR 0xE5, CHR 0xA4, CHR 0xB1, CHR 0xE8,
     CHR 0xB4, CHR 0xA5, CHR '':'', CHR 0x20]"

text \<open>
  The grouping of the listed tools by server in \<open>getEnhancedServerDescription\<close>: the
  server of a tool is what stands before the first \<open>__\<close> of its name (or \<open>unknown\<close>), its
  short name what stands after it (or the whole name).
\<close>

definition serverOfTool :: "MCPToolInfo \<Rightarrow> string" where
  "serverOfTool tool =
     (case splitUnderscores (js_or (name tool) []) of
        [] \<Rightarrow> ''unknown''
      | part # parts \<Rightarrow> js_or (Some part) ''unknown'')"

definition shortNameOfTool :: "MCPToolInfo \<Rightarrow> string" where
  "shortNameOfTool tool =
     js_or (Some (join ''__'' (tl (splitUnderscores (js_or (name tool) []))))) (js_or (name tool) [])"

definition toolsByServer :: "MCPToolInfo list \<Rightarrow> string \<Rightarrow> string list" where
  "toolsByServer tools serverName =
     map shortNameOfTool (filter (\<lambda>tool. serverOfTool tool = serverName) tools)"

text \<open>
  \<open>toolsByServer\<close> is a plain object of the runtime: a lookup under a name for which no
  tool was grouped finds the member that \<open>Object.prototype\<close> defines under the name, if
  there is one.  Grouping a tool whose server has such a name calls \<open>push\<close> on the
  inherited member and throws.  Describing a server row with such a name calls \<open>join\<close> on
  the inherited member, and throws, when the member is a function whose \<open>length\<close> is
  positive; the other members have no positive \<open>length\<close> and the row gets no tool list.
\<close>

definition objectPrototypeMembers :: "string list" where
  "objectPrototypeMembers =
     [''constructor'', ''__defineGetter__'', ''__defineSetter__'', ''hasOwnProperty'',
      ''__lookupGetter__'', ''__lookupSetter__'', ''isPrototypeOf'', ''propertyIsEnumerable'',
      ''toString'', ''valueOf'', ''__proto__'', ''toLocaleString'']"

definition membersOfPositiveLength :: "string list" where
  "membersOfPositiveLength =
     [''constructor'', ''__defineGetter__'', ''__defineSetter__'', ''hasOwnProperty'',
      ''__lookupGetter__'', ''__lookupSetter__'', ''isPrototypeOf'', ''propertyIsEnumerable'']"

definition groupingThrows :: "MCPToolInfo list \<Rightarrow> bool" where
  "groupingThrows tools =
     list_ex (\<lambda>tool. serverOfTool tool \<in> set objectPrototypeMembers) tools"

definition describingThrows :: "mcp_server_row \<Rightarrow> bool" where
  "describingThrows serverRow \<longleftrightarrow> ms_server_name serverRow \<in> set membersOfPositiveLength"

definition enabledServers :: "database \<Rightarrow> mcp_server_row list" where
  "enabledServers db = sort_key ms_server_name (filter ms_enabled (mcp_servers db))"

definition describeServer :: "(string \<Rightarrow> string list) \<Rightarrow> mcp_server_row \<Rightarrow> string" where
  "describeServer serverTools serverRow =
     ms_server_name serverRow
     @ (case ms_description serverRow of
          Some (c # cs) \<Rightarrow> ''('' @ c # cs @ '')''
        | _ \<Rightarrow> [])
     @ (if serverTools (ms_server_name serverRow) \<noteq> []
        then toolsLabel @ join '', '' (serverTools (ms_server_name serverRow))
        else [])"

text \<open>
  \<open>getEnhancedServerDescription\<close>.  When listing the tools or grouping them throws, the
  servers are described without their tools.  When describing a server row throws, the
  descriptions pushed for the rows before it stay, and the descriptions of all the rows
  without their tools follow.  With no enabled server the result is the empty string.
\<close>

definition getEnhancedServerDescription :: "environment \<Rightarrow> database \<Rightarrow> string" where
  "getEnhancedServerDescription env db =
     (let mcpServers = enabledServers db;
          basic = map (describeServer (\<lambda>serverName. [])) mcpServers;
          serverDescriptions =
            (case getTools env of
               Inl err \<Rightarrow> basic
             | Inr tools \<Rightarrow>
                 if groupingThrows tools then basic
                 else if list_ex describingThrows mcpServers
                 then map (describeServer (toolsByServer tools))
                        (takeWhile (\<lambda>serverRow. \<not> describingThrows serverRow) mcpServers)
                      @ basic
                 else map (describeServer (toolsByServer tools)) mcpServers)
      in if serverDescriptions \<noteq> []
         then serversPrefix @ join serversSeparator serverDescriptions @ serversSuffix
         else [])"

section \<open>The retriever\<close>

text \<open>\<open>s.substring(start, end)\<close>: the indices are swapped when out of order and clamped.\<close>

definition substring :: "nat \<Rightarrow> nat \<Rightarrow> string \<Rightarrow> string" where
  "substring start end' s = take (max start end' - min start end') (drop (min start end') s)"

text \<open>
  A new session id is \<open>Math.random().toString(36).substring(2, 8)\<close>.  The random number
  and its rendering in base 36 are floating-point computations of the runtime; the model
  takes the rendering, a string such as \<open>0.4fzyo82mvyr\<close>, as input.
\<close>

definition generateSessionId :: "string \<Rightarrow> string" where
  "generateSessionId random36 = substring 2 8 random36"

text \<open>\<open>x.toFixed(4)\<close> read back as a number.\<close>

definition toFixed4 :: "real \<Rightarrow> real" where
  "toFixed4 x =
     (if x < 0 then - (real_of_int (round (- x * 10000)) / 10000)
      else real_of_int (round (x * 10000)) / 10000)"

record toolInfo =
  ti_rank :: nat
  ti_tool_name :: string
  ti_md5 :: string

record fullToolInfo =
  fi_rank :: nat
  fi_tool_name :: string
  fi_md5 :: string
  fi_description :: "string option"
  fi_similarity :: real
  fi_input_schema :: "string option"
  fi_output_schema :: "string option"

record 'a queryResult =
  qr_query_index :: nat
  qr_query :: string
  qr_tools :: "'a list"

record retrieverSummary =
  new_tools_count :: nat
  known_tools_count :: nat
  session_history_count :: nat

record RetrieverResult =
  session_id :: string
  new_tools :: "fullToolInfo queryResult list"
  known_tools :: "toolInfo queryResult list"
  summary :: retrieverSummary
  server_description :: "string option"

text \<open>
  The split of one query's recommendations: a recommendation whose digest is in the known
  set goes to the known tools with its rank, name and digest, any other to the new tools
  with the full information.
\<close>

definition newToolsForQuery :: "string list \<Rightarrow> RecommendationResult list \<Rightarrow> fullToolInfo list" where
  "newToolsForQuery knownToolMD5s topResult =
     map (\<lambda>(index, rec).
         \<lparr>fi_rank = index + 1, fi_tool_name = rec_tool_name rec, fi_md5 = rec_tool_md5 rec,
          fi_description = rec_description rec,
          fi_similarity = toFixed4 (rec_similarity rec),
          fi_input_schema = (case rec_mcp_tool rec of None \<Rightarrow> None | Some t \<Rightarrow> schema t),
          fi_output_schema = (case rec_mcp_tool rec of None \<Rightarrow> None | Some t \<Rightarrow> outputSchema t)\<rparr>)
       (filter (\<lambda>(index, rec). rec_tool_md5 rec \<notin> set knownToolMD5s) (enumerate 0 topResult))"

definition knownToolsForQuery :: "string list \<Rightarrow> RecommendationResult list \<Rightarrow> toolInfo list" where
  "knownToolsForQuery knownToolMD5s topResult =
     map (\<lambda>(index, rec).
         \<lparr>ti_rank = index + 1, ti_tool_name = rec_tool_name rec, ti_md5 = rec_tool_md5 rec\<rparr>)
       (filter (\<lambda>(index, rec). rec_tool_md5 rec \<in> set knownToolMD5s) (enumerate 0 topResult))"

text \<open>
  The loop over the descriptions, from index \<open>i\<close>.  A query contributes an entry to the
  new tools, and one to the known tools, only when it has tools of that kind.  What
  \<open>recommendTools\<close> throws ends the loop.
\<close>

fun retrieveAll ::
  "environment \<Rightarrow> database \<Rightarrow> string list \<Rightarrow> string list option \<Rightarrow> nat \<Rightarrow> string list
     \<Rightarrow> string + (fullToolInfo queryResult list \<times> toolInfo queryResult list)" where
  "retrieveAll env db knownToolMD5s serverNames i [] = Inr ([], [])"
| "retrieveAll env db knownToolMD5s serverNames i (description' # descriptions) =
     (case recommendTools env db description' (topK env) (threshold env) True serverNames of
        Inl err \<Rightarrow> Inl err
      | Inr topResult \<Rightarrow>
          (case retrieveAll env db knownToolMD5s serverNames (Suc i) descriptions of
             Inl err \<Rightarrow> Inl err
           | Inr (newTools, knownTools) \<Rightarrow>
               Inr ((if newToolsForQuery knownToolMD5s topResult \<noteq> []
                     then [\<lparr>qr_query_index = i, qr_query = description',
                            qr_tools = newToolsForQuery knownToolMD5s topResult\<rparr>]
                     else []) @ newTools,
                    (if knownToolsForQuery knownToolMD5s topResult \<noteq> []
                     then [\<lparr>qr_query_index = i, qr_query = description',
                            qr_tools = knownToolsForQuery knownToolMD5s topResult\<rparr>]
                     else []) @ knownTools)))"

definition countTools :: "'a queryResult list \<Rightarrow> nat" where
  "countTools results = sum_list (map (\<lambda>item. length (qr_tools item)) results)"

text \<open>
  The handler of the \<open>retriever\<close> tool, for the session id the caller passed and the
  rendering \<open>random36\<close> of the random number drawn if a new id is needed.  It returns the
  database and either the result (the first text block is its JSON) or the message of the
  error block.
\<close>

definition retriever ::
  "environment \<Rightarrow> database \<Rightarrow> string \<Rightarrow> string list \<Rightarrow> string \<Rightarrow> string list option
     \<Rightarrow> database \<times> (string + RetrieverResult)" where
  "retriever env db random36 descriptions sessionId serverNames =
     (let enhancedServerDescription = getEnhancedServerDescription env db;
          needToGenerateNewSession =
            (if sessionId \<noteq> [] then getSessionHistory db sessionId = [] else True);
          finalSessionId =
            (if needToGenerateNewSession then generateSessionId random36 else sessionId);
          knownToolMD5s = map sh_tool_md5 (getSessionHistory db finalSessionId)
      in case retrieveAll env db knownToolMD5s serverNames 0 descriptions of
           Inl err \<Rightarrow> (db, Inl (retrieverFailedPrefix @ err))
         | Inr (newTools, knownTools) \<Rightarrow>
             (let newToolsToRecord =
                    concat (map (\<lambda>queryResult.
                      map (\<lambda>tool. (fi_md5 tool, fi_tool_name tool)) (qr_tools queryResult)) newTools);
                  db1 = (if newTools \<noteq> [] \<and> newToolsToRecord \<noteq> []
                         then fst (recordSessionToolRetrievalBatch db finalSessionId newToolsToRecord)
                         else db)
              in (db1,
                  Inr \<lparr>session_id = finalSessionId, new_tools = newTools,
                       known_tools = knownTools,
                       summary = \<lparr>new_tools_count = countTools newTools,
                                  known_tools_count = countTools knownTools,
                                  session_history_count =
                                    length (remdups knownToolMD5s) + countTools newTools\<rparr>,
                       server_description =
                         (if needToGenerateNewSession then Some enhancedServerDescription
                          else None)\<rparr>)))"

section \<open>The executor\<close>

record CallToolResult =
  content :: "string list"
  isError :: bool

text \<open>
  The handler of the \<open>executor\<close> tool: \<open>tools.find\<close> returns the first listed tool whose
  inline digest is the given one.  Whatever is thrown inside the handler, by the listing
  or by the tool, ends in an error block.
\<close>

definition executor :: "environment \<Rightarrow> string \<Rightarrow> string \<Rightarrow> CallToolResult" where
  "executor env md5' parameters =
     (case getTools env of
        Inl err \<Rightarrow> \<lparr>content = [executorFailedPrefix @ err], isError = True\<rparr>
      | Inr tools \<Rightarrow>
          (case find (\<lambda>t. executorMD5 t = md5') tools of
             None \<Rightarrow> \<lparr>content = [notFoundPrefix @ md5' @ notFoundSuffix], isError = True\<rparr>
           | Some tool \<Rightarrow>
               (case invoke env tool parameters of
                  Inl err \<Rightarrow> \<lparr>content = [executorFailedPrefix @ err], isError = True\<rparr>
                | Inr result \<Rightarrow> \<lparr>content = [result], isError = False\<rparr>)))"

section \<open>Notions used to state the properties\<close>

text \<open>The vectors linked to a tool id through \<open>tool_mapping\<close>.\<close>

definition vectorsOfTool :: "database \<Rightarrow> nat \<Rightarrow> vector list" where
  "vectorsOfTool db toolId =
     [v. (rowid, v) \<leftarrow> vec_tool_embeddings db, (mrowid, t) \<leftarrow> tool_mapping db,
         mrowid = rowid, t = toolId]"

text \<open>The pairs \<open>(tool_md5, model_name)\<close> under which tools are stored.\<close>

definition storedKeys :: "database \<Rightarrow> (string \<times> string) set" where
  "storedKeys db = (\<lambda>r. (tv_tool_md5 r, tv_model_name r)) ` set (tool_vectors db)"

text \<open>The tools of a list that the embedding service embeds, with their vectors.\<close>

fun embeddedTools :: "environment \<Rightarrow> (string \<times> string) list \<Rightarrow> (string \<times> string \<times> vector) list" where
  "embeddedTools env [] = []"
| "embeddedTools env ((toolName, description') # rest) =
     (case vectorizeString env (trim (toolName @ '' '' @ description')) of
        Inl err \<Rightarrow> embeddedTools env rest
      | Inr vector \<Rightarrow> (toolName, description', vector) # embeddedTools env rest)"

text \<open>
  What stays true of a tool row \<open>r\<close> of the database \<open>db0\<close> while tools are deleted:
  once the row is gone no mapping row points to it, and each mapping row that pointed to
  it in \<open>db0\<close> is still there or has lost its vector.
\<close>

definition cleanedUp :: "database \<Rightarrow> tool_vector_row \<Rightarrow> database \<Rightarrow> bool" where
  "cleanedUp db0 r d \<longleftrightarrow>
     (r \<notin> set (tool_vectors d) \<longrightarrow> (\<forall>x \<in> set (tool_mapping d). snd x \<noteq> tv_id r))
     \<and> (\<forall>x \<in> set (tool_mapping db0). snd x = tv_id r \<longrightarrow>
           x \<in> set (tool_mapping d) \<or> fst x \<notin> fst ` set (vec_tool_embeddings d))"

text \<open>
  The digests of the tools a retrieval reports as new, the digests in the history of a
  session, and two databases with the same tool tables.
\<close>

definition newMD5s :: "fullToolInfo queryResult list \<Rightarrow> string set" where
  "newMD5s results = (\<Union>item \<in> set results. fi_md5 ` set (qr_tools item))"

definition historyMD5s :: "database \<Rightarrow> string \<Rightarrow> string set" where
  "historyMD5s db sessionId = set (map sh_tool_md5 (getSessionHistory db sessionId))"

definition sameTools :: "database \<Rightarrow> database \<Rightarrow> bool" where
  "sameTools db db' \<longleftrightarrow> tool_vectors db' = tool_vectors db
     \<and> vec_tool_embeddings db' = vec_tool_embeddings db \<and> tool_mapping db' = tool_mapping db"

section \<open>Scenarios\<close>

text \<open>
  Concrete databases and environments for the scenarios evaluated below.  The vector
  column is declared with 2560 coordinates; the vectors of the scenarios have that length,
  with zeros after the first two coordinates.
\<close>

definition vector2 :: "real \<Rightarrow> real \<Rightarrow> vector" where
  "vector2 x y = x # y # replicate 2558 0"

text \<open>
  Two servers \<open>a\<close> and \<open>aa\<close>, each with a tool \<open>x\<close>: the tools the client lists, an
  embedding service that places the second tool at similarity 0.6 to the first and to
  every query, and the index of the two tools.
\<close>

definition toolAX :: MCPToolInfo where
  "toolAX = \<lparr>name = Some ''a__x'', tool_name = None, description = Some ''search'',
     schema = Some ''{}'', outputSchema = None\<rparr>"

definition toolAAX :: MCPToolInfo where
  "toolAAX = \<lparr>name = Some ''aa__x'', tool_name = None, description = Some ''search'',
     schema = Some ''{}'', outputSchema = None\<rparr>"

definition prefixCollisionEnv :: environment where
  "prefixCollisionEnv = \<lparr>vectorizeString =
       (\<lambda>s. if s = ''aa__x search'' then Inr (vector2 (3 / 5) (4 / 5)) else Inr (vector2 1 0)),
     defaultModelName = ''m'', deleteFails = (\<lambda>db m. False),
     getTools = Inr [toolAX, toolAAX], invoke = (\<lambda>t p. Inr ''null''), topK = 5,
     threshold = 1 / 10\<rparr>"

definition prefixCollisionDB :: database where
  "prefixCollisionDB = emptyDatabase
     \<lparr>tool_vectors :=
        [\<lparr>tv_id = 1, tv_tool_md5 = ''412a965f3e4711e36cef070179c84c81'', tv_model_name = ''m'',
          tv_tool_name = ''a__x'', tv_description = ''search''\<rparr>,
         \<lparr>tv_id = 2, tv_tool_md5 = ''50f351ac9a4cac4dd4ac625e2cff4561'', tv_model_name = ''m'',
          tv_tool_name = ''aa__x'', tv_description = ''search''\<rparr>],
      vec_tool_embeddings := [(1, vector2 1 0), (2, vector2 (3 / 5) (4 / 5))],
      tool_mapping := [(1, 1), (2, 2)],
      tool_vectors_seq := 2, vec_tool_embeddings_seq := 2\<rparr>"

text \<open>No server is configured and the client lists no tool.\<close>

definition emptyCatalogEnv :: environment where
  "emptyCatalogEnv = \<lparr>vectorizeString = (\<lambda>s. Inr (vector2 1 0)),
     defaultModelName = ''doubao-embedding-text-240715'', deleteFails = (\<lambda>db m. False),
     getTools = Inr [], invoke = (\<lambda>t p. Inr ''null''), topK = 5, threshold = 1 / 10\<rparr>"

text \<open>
  A client that lists tool \<open>srv__a\<close> once and tool \<open>srv__b\<close> twice; calling the first
  throws, calling the second returns a JSON array.
\<close>

definition toolA :: MCPToolInfo where
  "toolA = \<lparr>name = Some ''srv__a'', tool_name = None, description = Some ''reads a file'',
     schema = Some ''{}'', outputSchema = None\<rparr>"

definition toolB :: MCPToolInfo where
  "toolB = \<lparr>name = Some ''srv__b'', tool_name = None, description = Some ''writes a file'',
     schema = Some ''{}'', outputSchema = None\<rparr>"

definition executorEnv :: environment where
  "executorEnv = \<lparr>vectorizeString = (\<lambda>s. Inr (vector2 1 0)),
     defaultModelName = ''doubao-embedding-text-240715'', deleteFails = (\<lambda>db m. False),
     getTools = Inr [toolA, toolB, toolB],
     invoke = (\<lambda>t p. if name t = Some ''srv__b'' then Inr (''[1,'' @ p @ '']'') else Inl ''EACCES''),
     topK = 5, threshold = 1 / 10\<rparr>"

text \<open>
  Two embedding services for the tools \<open>srv__a\<close> and \<open>srv__b\<close>.  The first embeds them
  at cosine similarity 40/41, about 0.976, the second at a right angle.
\<close>

definition nearDuplicateEnv :: environment where
  "nearDuplicateEnv = \<lparr>vectorizeString =
       (\<lambda>s. if s = ''srv__a reads a file'' then Inr (vector2 1 0) else Inr (vector2 (40 / 41) (9 / 41))),
     defaultModelName = ''m'', deleteFails = (\<lambda>db m. False),
     getTools = Inr [toolA, toolB], invoke = (\<lambda>t p. Inr ''null''), topK = 5,
     threshold = 1 / 10\<rparr>"


text \<open>
  The index holding tool \<open>srv__a\<close> under tool id and vector row id \<open>i\<close>, the index
  holding tool \<open>srv__b\<close>, as the first embedding service embeds it, under tool id and
  vector row id 2, and the index holding both tools as the second service embeds them.
\<close>

definition indexOfA :: "nat \<Rightarrow> database" where
  "indexOfA i = emptyDatabase\<lparr>
     tool_vectors := [\<lparr>tv_id = i, tv_tool_md5 = ''89ac6e6d9e7441bc05d811702197381d'', tv_model_name = ''m'',
        tv_tool_name = ''srv__a'', tv_description = ''reads a file''\<rparr>],
     vec_tool_embeddings := [(i, (vector2 1 0))], tool_mapping := [(i, i)],
     tool_vectors_seq := i, vec_tool_embeddings_seq := i\<rparr>"

definition indexOfB :: database where
  "indexOfB = emptyDatabase\<lparr>
     tool_vectors := [\<lparr>tv_id = 2, tv_tool_md5 = ''4c01b13aa263a4ff6927cce0fb36d8d2'', tv_model_name = ''m'',
        tv_tool_name = ''srv__b'', tv_description = ''writes a file''\<rparr>],
     vec_tool_embeddings := [(2, (vector2 (40 / 41) (9 / 41)))], tool_mapping := [(2, 2)],
     tool_vectors_seq := 2, vec_tool_embeddings_seq := 2\<rparr>"

definition indexOfAB :: database where
  "indexOfAB = emptyDatabase\<lparr>
     tool_vectors := [\<lparr>tv_id = 1, tv_tool_md5 = ''89ac6e6d9e7441bc05d811702197381d'', tv_model_name = ''m'',
        tv_tool_name = ''srv__a'', tv_description = ''reads a file''\<rparr>,
       \<lparr>tv_id = 2, tv_tool_md5 = ''4c01b13aa263a4ff6927cce0fb36d8d2'', tv_model_name = ''m'',
        tv_tool_name = ''srv__b'', tv_description = ''writes a file''\<rparr>],
     vec_tool_embeddings := [(1, (vector2 1 0)), (2, (vector2 0 1))], tool_mapping := [(1, 1), (2, 2)],
     tool_vectors_seq := 2, vec_tool_embeddings_seq := 2\<rparr>"

text \<open>
  A retrieval over the index of \<open>srv__a\<close> and \<open>srv__b\<close>: the query \<open>read docs\<close> is
  embedded next to the first tool, any other query next to the second.  \<open>replayDB\<close> is
  the database after the first answer, \<open>firstAnswer\<close>; \<open>secondAnswer\<close> is the answer to
  the same descriptions under the session id of the first.
\<close>

definition retrievalEnv :: environment where
  "retrievalEnv = \<lparr>vectorizeString = (\<lambda>s. if s = ''read docs'' then Inr (vector2 1 0) else Inr (vector2 0 1)),
     defaultModelName = ''m'', deleteFails = (\<lambda>db m. False),
     getTools = Inr [toolA, toolB], invoke = (\<lambda>t p. Inr ''null''), topK = 5,
     threshold = 1 / 10\<rparr>"

definition replayDB :: database where
  "replayDB = indexOfAB\<lparr>session_tool_history :=
     [\<lparr>sh_session_id = ''4fzyo8'', sh_tool_md5 = ''89ac6e6d9e7441bc05d811702197381d'', sh_tool_name = ''srv__a''\<rparr>,
      \<lparr>sh_session_id = ''4fzyo8'', sh_tool_md5 = ''4c01b13aa263a4ff6927cce0fb36d8d2'', sh_tool_name = ''srv__b''\<rparr>]\<rparr>"

definition firstAnswer :: RetrieverResult where
  "firstAnswer = \<lparr>session_id = ''4fzyo8'',
     new_tools =
       [\<lparr>qr_query_index = 0, qr_query = ''read docs'',
         qr_tools = [\<lparr>fi_rank = 1, fi_tool_name = ''srv__a'', fi_md5 = ''89ac6e6d9e7441bc05d811702197381d'',
           fi_description = Some ''reads a file'', fi_similarity = 1,
           fi_input_schema = Some ''{}'', fi_output_schema = None\<rparr>]\<rparr>,
        \<lparr>qr_query_index = 1, qr_query = ''create block'',
         qr_tools = [\<lparr>fi_rank = 1, fi_tool_name = ''srv__b'', fi_md5 = ''4c01b13aa263a4ff6927cce0fb36d8d2'',
           fi_description = Some ''writes a file'', fi_similarity = 1,
           fi_input_schema = Some ''{}'', fi_output_schema = None\<rparr>]\<rparr>],
     known_tools = [],
     summary = \<lparr>new_tools_count = 2, known_tools_count = 0, session_history_count = 2\<rparr>,
     server_description = Some []\<rparr>"

definition secondAnswer :: RetrieverResult where
  "secondAnswer = \<lparr>session_id = ''4fzyo8'', new_tools = [],
     known_tools =
       [\<lparr>qr_query_index = 0, qr_query = ''read docs'',
         qr_tools = [\<lparr>ti_rank = 1, ti_tool_name = ''srv__a'', ti_md5 = ''89ac6e6d9e7441bc05d811702197381d''\<rparr>]\<rparr>,
        \<lparr>qr_query_index = 1, qr_query = ''create block'',
         qr_tools = [\<lparr>ti_rank = 1, ti_tool_name = ''srv__b'', ti_md5 = ''4c01b13aa263a4ff6927cce0fb36d8d2''\<rparr>]\<rparr>],
     summary = \<lparr>new_tools_count = 0, known_tools_count = 2, session_history_count = 2\<rparr>,
     server_description = None\<rparr>"

section \<open>Evaluation rules\<close>

text \<open>
  The defining equation of \<open>like\<close> for a non-empty pattern rewrites its own right-hand
  side; the equations below, one per case, replace it in the simplifier.
\<close>

declare like.simps(2) [simp del]

lemma like_percent_Nil: "like (CHR ''%'' # ps) [] = like ps []"
  by (simp add: like.simps(2))

lemma like_percent_Cons:
  "like (CHR ''%'' # ps) (c # cs) = (like ps (c # cs) \<or> like (CHR ''%'' # ps) (utf8_skip (c # cs)))"
  by (subst like.simps(2)) simp

lemma like_Cons_Nil: "p \<noteq> CHR ''%'' \<Longrightarrow> like (p # ps) [] = False"
  by (simp add: like.simps(2))

lemma like_underscore_Cons: "like (CHR ''_'' # ps) (c # cs) = like ps (utf8_skip (c # cs))"
  by (simp add: like.simps(2))

lemma like_char_Cons:
  "p \<noteq> CHR ''%'' \<Longrightarrow> p \<noteq> CHR ''_'' \<Longrightarrow>
   like (p # ps) (c # cs) = (lowerCode p = lowerCode c \<and> like ps cs)"
  by (simp add: like.simps(2))

lemmas like_eval = like_percent_Nil like_percent_Cons like_Cons_Nil like_underscore_Cons
  like_char_Cons utf8_skip_def lowerCode_def isContinuation_def

lemmas trim_eval = trim_def isWhiteSpace_def whiteSpaceChars_def isContinuation_def

text \<open>The digests of the texts of the scenarios, computed once.\<close>

lemma md5hex_srv_a: "md5hex ''srv__areads a file'' = ''89ac6e6d9e7441bc05d811702197381d''"
  by code_simp

lemma md5hex_srv_b: "md5hex ''srv__bwrites a file'' = ''4c01b13aa263a4ff6927cce0fb36d8d2''"
  by code_simp

lemma md5hex_srv_t: "md5hex ''srv__treads a file'' = ''62145043e3c0ee6ff90374cc3acf3710''"
  by code_simp

lemma md5hex_srv_t_undefined: "md5hex ''srv__tundefined'' = ''e3d075e1c90d2980b5c30e447357c7a3''"
  by code_simp

lemma md5hex_srv_t_alone: "md5hex ''srv__t'' = ''bb85c53d04afa88d754ddaa9728ddc08''"
  by code_simp

lemma md5hex_hello: "md5hex ''srv__Ahello world'' = ''cdb0fdc14902f6613843d9aa45695f07''"
  by code_simp

lemma md5hex_a_x: "md5hex ''a__xsearch'' = ''412a965f3e4711e36cef070179c84c81''"
  by code_simp

lemma md5hex_aa_x: "md5hex ''aa__xsearch'' = ''50f351ac9a4cac4dd4ac625e2cff4561''"
  by code_simp

lemmas md5hex_eval = md5hex_srv_a md5hex_srv_b md5hex_srv_t md5hex_srv_t_undefined
  md5hex_srv_t_alone md5hex_hello md5hex_a_x md5hex_aa_x

text \<open>The cosine distance of two vectors of the scenarios.\<close>

lemma vec_distance_cosine_vector2:
  "vec_distance_cosine (vector2 a b) (vector2 c d) =
     (if a * a + b * b = 0 \<or> c * c + d * d = 0 then None
      else Some (1 - (a * c + b * d) / (sqrt (a * a + b * b) * sqrt (c * c + d * d))))"
  by (simp add: vec_distance_cosine_def dot_def vector2_def sum_list_replicate)

lemma length_vector2: "length (vector2 x y) = 2560"
  by (simp add: vector2_def)

lemmas search_eval = searchSimilarVectors_def joinedRows_def serverParams_def
  vec_distance_cosine_vector2 like_eval

lemma getEnhancedServerDescription_no_servers:
  "filter ms_enabled (mcp_servers db) = [] \<Longrightarrow> getEnhancedServerDescription env db = []"
  by (simp add: getEnhancedServerDescription_def enabledServers_def split: sum.splits)

lemmas retriever_eval = retriever_def getEnhancedServerDescription_no_servers
  getSessionHistory_def generateSessionId_def substring_def recommendTools_def
  searchSimilarTools_def findMatchingMCPTools_def newToolsForQuery_def knownToolsForQuery_def
  countTools_def

lemmas index_eval = indexMCPTools_def toolsToVectorize_def getToolByMD5_def calculatedMD5_def
  toolNameOf_def descriptionOf_def generateToolMD5_def trim_eval deleteSimilarTools_def
  deleteOldTool_def deleteToolVector_def deleteMappedVectors_def selectedForDelete_def
  identifySimilarToolsToDelete_def saveToolVector_def nextRowId_def
  searchSimilarVectors_def joinedRows_def vec_distance_cosine_vector2 md5hex_eval Let_def

section \<open>Properties of trimming\<close>

lemma utf8_chars_append:
  assumes "t \<noteq> []" and "\<not> isContinuation (hd t)"
  shows "utf8_chars (s @ t) = utf8_chars s @ utf8_chars t"
proof (induction s rule: utf8_chars.induct)
  case 1
  show ?case by simp
next
  case (2 c cs)
  show ?case
  proof (cases "\<forall>x \<in> set cs. isContinuation x")
    case True
    from assms obtain a as where t: "t = a # as" "\<not> isContinuation a"
      by (cases t) auto
    from True t have l: "utf8_chars ((c # cs) @ t) = (c # cs) # utf8_chars t"
      by (simp add: takeWhile_append2 dropWhile_append2 del: utf8_chars.simps(2)
          add: utf8_chars.simps(2) [of c "cs @ a # as"])
    from True have dw: "dropWhile isContinuation cs = []"
      and tw: "takeWhile isContinuation cs = cs"
      by (simp_all add: dropWhile_eq_Nil_conv)
    have r: "utf8_chars (c # cs) = [c # cs]"
      by (simp only: utf8_chars.simps dw tw)
    show ?thesis unfolding l r by simp
  next
    case False
    then have "takeWhile isContinuation (cs @ t) = takeWhile isContinuation cs"
      and "dropWhile isContinuation (cs @ t) = dropWhile isContinuation cs @ t"
      by (auto simp: takeWhile_append1 dropWhile_append1)
    with 2 show ?thesis by simp
  qed
qed

lemma isWhiteSpace_lead: "isWhiteSpace c \<Longrightarrow> c \<noteq> [] \<and> \<not> isContinuation (hd c)"
  by (auto simp: isWhiteSpace_def whiteSpaceChars_def isContinuation_def)

lemma whiteSpaceOnly_lead:
  assumes "whiteSpaceOnly w" and "w \<noteq> []"
  shows "\<not> isContinuation (hd w)"
proof -
  from assms(2) obtain c cs where w: "w = c # cs" by (cases w) auto
  with assms(1) have "isWhiteSpace (c # takeWhile isContinuation cs)"
    by (simp add: whiteSpaceOnly_def)
  from isWhiteSpace_lead [OF this] w show ?thesis by simp
qed

lemma strip_both_append:
  assumes "list_all P ws"
  shows "rev (dropWhile P (rev (dropWhile P (xs @ ws)))) = rev (dropWhile P (rev (dropWhile P xs)))"
proof (cases "\<forall>x \<in> set xs. P x")
  case True
  with assms have "dropWhile P (xs @ ws) = []" "dropWhile P xs = []"
    by (simp_all add: dropWhile_eq_Nil_conv list_all_iff)
  then show ?thesis by (simp only: rev.simps dropWhile.simps)
next
  case False
  then have "dropWhile P (xs @ ws) = dropWhile P xs @ ws"
    by (auto simp: dropWhile_append1)
  moreover have "dropWhile P (rev ws @ ys) = dropWhile P ys" for ys
    by (rule dropWhile_append2) (use assms in \<open>simp add: list_all_iff\<close>)
  ultimately show ?thesis by simp
qed

lemma trim_append_whiteSpace:
  assumes "whiteSpaceOnly w"
  shows "trim (s @ w) = trim s"
proof (cases "w = []")
  case True
  then show ?thesis by simp
next
  case False
  with assms have "utf8_chars (s @ w) = utf8_chars s @ utf8_chars w"
    by (intro utf8_chars_append whiteSpaceOnly_lead)
  with assms show ?thesis
    by (simp add: trim_def whiteSpaceOnly_def strip_both_append)
qed

lemma whiteSpaceOnly_space: "whiteSpaceOnly '' ''"
  by (simp add: whiteSpaceOnly_def isWhiteSpace_def whiteSpaceChars_def)

section \<open>The identity of a tool\<close>

text \<open>
  Claim C4.  \<open>generateToolMD5(n, d)\<close> is the digest of the concatenation of \<open>n\<close> and
  \<open>d\<close>, with no separator, trimmed; an omitted description counts as the empty string.
  White space after the description does not change the identity: a description followed by
  any string of white space gives the same digest, and so \<open>hello world\<close> with and without
  a trailing space give the same \<open>tool_md5\<close>.  The digest is a function of the trimmed
  text alone, so equal inputs give equal identities.
\<close>

theorem generateToolMD5_trimmed_concat:
  "generateToolMD5 n (Some d) = md5hex (trim (n @ d))
   \<and> generateToolMD5 n None = md5hex (trim n)
   \<and> (whiteSpaceOnly w \<longrightarrow>
        generateToolMD5 n (Some (d @ w)) = generateToolMD5 n (Some d))
   \<and> generateToolMD5 n (Some ''hello world '') = generateToolMD5 n (Some ''hello world'')"
proof -
  have "trim (n @ d @ w) = trim (n @ d)" if "whiteSpaceOnly w" for d w
    using trim_append_whiteSpace [OF that, of "n @ d"] by simp
  from this [of w d] this [OF whiteSpaceOnly_space, of "''hello world''"]
  show ?thesis by (simp add: generateToolMD5_def)
qed

theorem generateToolMD5_trimmed_concat_witness:
  "whiteSpaceOnly [CHR 0x20, CHR 0x09, CHR 0xC2, CHR 0xA0]
   \<and> generateToolMD5 ''srv__A'' (Some (''hello world'' @ [CHR 0x20, CHR 0x09, CHR 0xC2, CHR 0xA0]))
     = ''cdb0fdc14902f6613843d9aa45695f07''"
  using generateToolMD5_trimmed_concat
    [of "''srv__A''" "''hello world''" "[CHR 0x20, CHR 0x09, CHR 0xC2, CHR 0xA0]"]
  by (simp add: whiteSpaceOnly_def generateToolMD5_def trim_eval md5hex_eval)

text \<open>
  Claim C10.  For a listed tool whose \<open>name\<close> is the string \<open>n\<close> and whose
  \<open>description\<close> is the string \<open>d\<close> (empty or not), the digest the executor computes
  inline is \<open>generateToolMD5(n, d)\<close>; when \<open>n\<close> is not empty this is the identity under
  which the indexer stores the tool and the retriever matches it.  The agreement needs the
  description to be defined: for a tool without one the executor hashes the name followed by
  the text \<open>undefined\<close>, the indexer the name alone.
\<close>

theorem executorMD5_agrees:
  "(name t = Some n \<and> description t = Some d \<longrightarrow>
      executorMD5 t = generateToolMD5 n (Some d)
      \<and> (n \<noteq> [] \<longrightarrow> executorMD5 t = calculatedMD5 t))
   \<and> (name t = Some n \<and> n \<noteq> [] \<and> description t = None \<longrightarrow>
      executorMD5 t = md5hex (trim (n @ ''undefined''))
      \<and> calculatedMD5 t = md5hex (trim n))"
  by (cases "d = []")
    (auto simp: executorMD5_def generateToolMD5_def calculatedMD5_def toolNameOf_def
      descriptionOf_def)

theorem executorMD5_agrees_witness:
  "executorMD5
       \<lparr>name = Some ''srv__t'', tool_name = None, description = Some ''reads a file '',
        schema = None, outputSchema = None\<rparr> = ''62145043e3c0ee6ff90374cc3acf3710''
   \<and> calculatedMD5
       \<lparr>name = Some ''srv__t'', tool_name = None, description = Some ''reads a file '',
        schema = None, outputSchema = None\<rparr> = ''62145043e3c0ee6ff90374cc3acf3710''
   \<and> executorMD5
       \<lparr>name = Some ''srv__t'', tool_name = None, description = None,
        schema = None, outputSchema = None\<rparr> = ''e3d075e1c90d2980b5c30e447357c7a3''
   \<and> calculatedMD5
       \<lparr>name = Some ''srv__t'', tool_name = None, description = None,
        schema = None, outputSchema = None\<rparr> = ''bb85c53d04afa88d754ddaa9728ddc08''"
  using executorMD5_agrees
    [of "\<lparr>name = Some ''srv__t'', tool_name = None, description = Some ''reads a file '',
          schema = None, outputSchema = None\<rparr>"
      "''srv__t''" "''reads a file ''"]
    executorMD5_agrees
    [of "\<lparr>name = Some ''srv__t'', tool_name = None, description = None,
          schema = None, outputSchema = None\<rparr>"
      "''srv__t''" "[]"]
  by (simp add: executorMD5_def calculatedMD5_def toolNameOf_def descriptionOf_def
      generateToolMD5_def trim_eval md5hex_eval)

section \<open>The server filter of the similarity search\<close>

text \<open>
  Claim C1 says that a search filtered to the server names \<open>S\<close> returns only tools whose
  name starts with some \<open>s\<close> of \<open>S\<close> followed by \<open>__\<close>, and that with servers \<open>a\<close> and
  \<open>aa\<close> a search filtered to \<open>a\<close> never returns \<open>aa__x\<close>.  The query filters with
  \<open>tool_name LIKE 'a__%'\<close>, in which each underscore matches any one character.  The
  indexer, run on the tools of the two servers, builds the index of the scenario; on it
  the search filtered to \<open>a\<close> returns \<open>a__x\<close> and \<open>aa__x\<close>, and a retrieval with
  \<open>serverNames = ["a"]\<close> reports both as new tools.
\<close>

theorem searchSimilarVectors_prefix_collision:
  "indexMCPTools prefixCollisionEnv emptyDatabase [toolAX, toolAAX] = (prefixCollisionDB, [1, 2])
   \<and> map (\<lambda>r. (sr_tool_name r, sr_similarity r))
       (searchSimilarVectors prefixCollisionDB (vector2 1 0) 5 (1 / 10) (Some [''a'']))
     = [(''a__x'', 1), (''aa__x'', 3 / 5)]
   \<and> map_sum id (\<lambda>r. map (\<lambda>item. map fi_tool_name (qr_tools item)) (new_tools r))
       (snd (retriever prefixCollisionEnv prefixCollisionDB ''0.4fzyo82mvyr'' [''search'']
          [] (Some [''a''])))
     = Inr [[''a__x'', ''aa__x'']]"
  by (simp add: prefixCollisionEnv_def toolAX_def toolAAX_def prefixCollisionDB_def
      emptyDatabase_def index_eval retriever_eval search_eval recordSessionToolRetrieval_def
      toFixed4_def)

section \<open>One vector for each tool row\<close>

text \<open>
  Claim C5 says that after any sequence of \<open>saveToolVector\<close> and \<open>deleteToolVector\<close> every
  row of \<open>tool_vectors\<close> is linked to exactly one vector, in particular after saving a
  tool whose \<open>(tool_md5, model_name)\<close> exists already.  Saving the same tool twice into
  the empty database leaves one tool row, with id 1, linked to both vectors: the second
  save inserts a second vector and a second mapping row and removes neither of the first.
\<close>

theorem saveToolVector_twice_two_vectors:
  "(let db1 = fst (saveToolVector emptyDatabase ''srv__t'' ''reads a file'' v1 ''m'');
        db2 = fst (saveToolVector db1 ''srv__t'' ''reads a file'' v2 ''m'')
    in map tv_id (tool_vectors db2) = [1] \<and> vectorsOfTool db2 1 = [v1, v2]
       \<and> tool_mapping db2 = [(1, 1), (2, 1)])"
  by (simp add: saveToolVector_def emptyDatabase_def nextRowId_def vectorsOfTool_def Let_def)

section \<open>The shape of a generated session id\<close>

text \<open>
  Claim C7 says that a generated session id has exactly six characters, each a lowercase
  letter or a digit.  The id is the substring from index 2 to index 8 of the random number
  written in base 36.  \<open>Math.random()\<close> can return one half, which base 36 writes
  \<open>0.i\<close>: the session id of an empty catalog retrieval is then the one letter \<open>i\<close>.
\<close>

theorem retriever_short_session_id:
  "generateSessionId ''0.i'' = ''i''
   \<and> snd (retriever emptyCatalogEnv emptyDatabase ''0.i'' [''anything''] [] None) =
      Inr \<lparr>session_id = ''i'', new_tools = [], known_tools = [],
           summary = \<lparr>new_tools_count = 0, known_tools_count = 0, session_history_count = 0\<rparr>,
           server_description = Some []\<rparr>"
  by (simp add: retriever_eval emptyCatalogEnv_def emptyDatabase_def search_eval)

section \<open>Retrieval from an empty catalog\<close>

lemma concat_map_Nil: "concat (map (\<lambda>x. []) xs) = []"
  by (induction xs) simp_all

lemma recommendTools_no_tools:
  assumes "getTools env = Inr []" and "vectorizeString env d = Inr v"
  shows "recommendTools env db d k thr inc sn = Inr []"
  using assms
  by (simp add: recommendTools_def searchSimilarTools_def findMatchingMCPTools_def
      concat_map_Nil)

lemma retrieveAll_no_tools:
  assumes "getTools env = Inr []" and "\<forall>d \<in> set ds. \<exists>v. vectorizeString env d = Inr v"
  shows "retrieveAll env db known sn i ds = Inr ([], [])"
  using assms(2)
proof (induction ds arbitrary: i)
  case Nil
  show ?case by simp
next
  case (Cons d ds)
  then obtain v where "vectorizeString env d = Inr v" by auto
  from recommendTools_no_tools [OF assms(1) this] Cons show ?case
    by (simp add: newToolsForQuery_def knownToolsForQuery_def)
qed

lemma retriever_no_tools:
  assumes "getTools env = Inr []"
    and "filter ms_enabled (mcp_servers db) = []"
    and "\<forall>d \<in> set descriptions. \<exists>v. vectorizeString env d = Inr v"
  shows "retriever env db random36 descriptions [] serverNames =
     (db, Inr \<lparr>session_id = generateSessionId random36, new_tools = [], known_tools = [],
           summary = \<lparr>new_tools_count = 0, known_tools_count = 0,
             session_history_count =
               length (remdups (map sh_tool_md5 (getSessionHistory db (generateSessionId random36))))\<rparr>,
           server_description = Some []\<rparr>)"
  using retrieveAll_no_tools [OF assms(1) assms(3)]
  by (simp add: retriever_def getEnhancedServerDescription_no_servers [OF assms(2)]
      countTools_def Let_def)

lemma retriever_server_description_first_time:
  assumes "snd (retriever env db random36 descriptions sessionId serverNames) = Inr r"
  shows "(server_description r \<noteq> None) = (sessionId = [] \<or> getSessionHistory db sessionId = [])"
  using assms
  by (auto simp: retriever_def Let_def split: sum.splits prod.splits if_splits)

text \<open>
  Claim C8 says that with no server configured a retrieval with an empty session id returns
  no new tools, no known tools, a fresh session id and a non-empty server description.
  The description is the empty string there: \<open>getEnhancedServerDescription\<close> returns
  \<open>""\<close> when no server is enabled.
\<close>

theorem retriever_empty_catalog_counterexample:
  "retriever emptyCatalogEnv emptyDatabase ''0.4fzyo82mvyr'' [''anything''] [] None =
     (emptyDatabase,
      Inr \<lparr>session_id = ''4fzyo8'', new_tools = [], known_tools = [],
           summary = \<lparr>new_tools_count = 0, known_tools_count = 0, session_history_count = 0\<rparr>,
           server_description = Some []\<rparr>)"
  by (simp add: retriever_eval emptyCatalogEnv_def emptyDatabase_def search_eval)

text \<open>
  Claim C8 as amended.  When no server is enabled, the client lists no tool and every
  description can be embedded, a retrieval with an empty session id changes nothing in the
  database and returns no new tools, no known tools, the generated session id and the empty
  string as server description.  In every successful retrieval the server description is
  present exactly when the session is a first-time one: the caller passed an empty id or an
  id without history.
\<close>

theorem retriever_empty_catalog:
  "(getTools env = Inr [] \<and> filter ms_enabled (mcp_servers db) = []
      \<and> (\<forall>d \<in> set descriptions. \<exists>v. vectorizeString env d = Inr v) \<longrightarrow>
    retriever env db rnd descriptions [] serverNames =
     (db, Inr \<lparr>session_id = generateSessionId rnd, new_tools = [], known_tools = [],
           summary = \<lparr>new_tools_count = 0, known_tools_count = 0,
             session_history_count =
               length (remdups (map sh_tool_md5 (getSessionHistory db (generateSessionId rnd))))\<rparr>,
           server_description = Some []\<rparr>))
   \<and> (snd (retriever env db rnd descriptions sessionId serverNames) = Inr r \<longrightarrow>
      (server_description r \<noteq> None) = (sessionId = [] \<or> getSessionHistory db sessionId = []))"
  using retriever_no_tools retriever_server_description_first_time by blast

theorem retriever_empty_catalog_witness:
  "getTools emptyCatalogEnv = Inr [] \<and> filter ms_enabled (mcp_servers emptyDatabase) = []
   \<and> vectorizeString emptyCatalogEnv ''anything'' = Inr (vector2 1 0)
   \<and> retriever emptyCatalogEnv emptyDatabase ''0.4fzyo82mvyr'' [''anything''] [] (Some [''a'']) =
     (emptyDatabase,
      Inr \<lparr>session_id = ''4fzyo8'', new_tools = [], known_tools = [],
           summary = \<lparr>new_tools_count = 0, known_tools_count = 0, session_history_count = 0\<rparr>,
           server_description = Some []\<rparr>)"
  using retriever_empty_catalog [where env = emptyCatalogEnv and db = emptyDatabase
      and rnd = "''0.4fzyo82mvyr''" and descriptions = "[''anything'']"
      and serverNames = "Some [''a'']" and sessionId = "[]"]
  by (simp add: emptyCatalogEnv_def emptyDatabase_def getSessionHistory_def
      generateSessionId_def substring_def)

section \<open>The executor\<close>

lemma find_first:
  assumes "\<forall>u \<in> set pre. \<not> P u" and "P t"
  shows "find P (pre @ t # post) = Some t"
  using assms by (induction pre) auto

lemma find_none: "(\<forall>u \<in> set ts. \<not> P u) \<Longrightarrow> find P ts = None"
  by (simp add: find_None_iff)

text \<open>
  Claim C9.  The executor takes the client's current list of tools, computes the digest of
  each and calls the first tool whose digest is the given one; the result of the call, as
  JSON, is the one text block of the answer.  When no listed tool has the digest the answer
  is an error block; when the call, or the listing, throws, the answer is an error block
  too, and nothing is thrown further.  The handler has no access to the database.
\<close>

theorem executor_resolution:
  "(getTools env = Inr (pre @ t # post)
      \<and> (\<forall>u \<in> set pre. executorMD5 u \<noteq> m)
      \<and> executorMD5 t = m \<longrightarrow>
      executor env m parameters =
        (case invoke env t parameters of
           Inr result \<Rightarrow> \<lparr>content = [result], isError = False\<rparr>
         | Inl err \<Rightarrow> \<lparr>content = [executorFailedPrefix @ err], isError = True\<rparr>))
   \<and> (getTools env = Inr ts \<and> (\<forall>u \<in> set ts. executorMD5 u \<noteq> m) \<longrightarrow>
      executor env m parameters =
        \<lparr>content = [notFoundPrefix @ m @ notFoundSuffix], isError = True\<rparr>)
   \<and> (getTools env = Inl err \<longrightarrow>
      executor env m parameters = \<lparr>content = [executorFailedPrefix @ err], isError = True\<rparr>)"
proof (intro conjI impI)
  assume a: "getTools env = Inr (pre @ t # post)
      \<and> (\<forall>u \<in> set pre. executorMD5 u \<noteq> m)
      \<and> executorMD5 t = m"
  then have "find (\<lambda>t. executorMD5 t = m) (pre @ t # post) = Some t"
    by (intro find_first) auto
  with a show "executor env m parameters =
        (case invoke env t parameters of
           Inr result \<Rightarrow> \<lparr>content = [result], isError = False\<rparr>
         | Inl err \<Rightarrow> \<lparr>content = [executorFailedPrefix @ err], isError = True\<rparr>)"
    by (simp add: executor_def split: sum.splits)
next
  assume a: "getTools env = Inr ts \<and> (\<forall>u \<in> set ts. executorMD5 u \<noteq> m)"
  then have "find (\<lambda>t. executorMD5 t = m) ts = None"
    by (intro find_none) auto
  with a show "executor env m parameters =
        \<lparr>content = [notFoundPrefix @ m @ notFoundSuffix], isError = True\<rparr>"
    by (simp add: executor_def)
next
  assume "getTools env = Inl err"
  then show "executor env m parameters = \<lparr>content = [executorFailedPrefix @ err], isError = True\<rparr>"
    by (simp add: executor_def)
qed

theorem executor_resolution_witness:
  "executor executorEnv ''4c01b13aa263a4ff6927cce0fb36d8d2'' ''{}'' = \<lparr>content = [''[1,{}]''], isError = False\<rparr>
   \<and> executor executorEnv ''89ac6e6d9e7441bc05d811702197381d'' ''{}'' =
       \<lparr>content = [executorFailedPrefix @ ''EACCES''], isError = True\<rparr>
   \<and> executor executorEnv ''0cc175b9c0f1b6a831c399e269772661'' ''{}'' =
       \<lparr>content = [notFoundPrefix @ ''0cc175b9c0f1b6a831c399e269772661'' @ notFoundSuffix], isError = True\<rparr>
   \<and> executor (executorEnv\<lparr>getTools := Inl ''not connected''\<rparr>) ''4c01b13aa263a4ff6927cce0fb36d8d2'' ''{}'' =
       \<lparr>content = [executorFailedPrefix @ ''not connected''], isError = True\<rparr>"
  using executor_resolution [where env = executorEnv and pre = "[toolA]" and t = toolB
      and post = "[toolB]" and m = "''4c01b13aa263a4ff6927cce0fb36d8d2''" and parameters = "''{}''"
      and ts = "[]" and err = "[]"]
    executor_resolution [where env = executorEnv and pre = "[]" and t = toolA
      and post = "[toolB, toolB]" and m = "''89ac6e6d9e7441bc05d811702197381d''" and parameters = "''{}''"
      and ts = "[]" and err = "[]"]
    executor_resolution [where env = executorEnv and pre = "[]" and t = toolA and post = "[]"
      and m = "''0cc175b9c0f1b6a831c399e269772661''" and parameters = "''{}''"
      and ts = "[toolA, toolB, toolB]" and err = "[]"]
    executor_resolution [where env = "executorEnv\<lparr>getTools := Inl ''not connected''\<rparr>"
      and pre = "[]" and t = toolA and post = "[]" and m = "''4c01b13aa263a4ff6927cce0fb36d8d2''"
      and parameters = "''{}''" and ts = "[]" and err = "''not connected''"]
  by (simp add: executorEnv_def toolA_def toolB_def executorMD5_def trim_eval md5hex_eval)


section \<open>Stored tools\<close>

lemma getToolByMD5_None_iff:
  "getToolByMD5 db m model = None \<longleftrightarrow> (m, model) \<notin> storedKeys db"
  by (auto simp: getToolByMD5_def storedKeys_def find_None_iff)

lemma storedKeys_saveToolVector:
  "storedKeys (fst (saveToolVector db n d v model)) =
     insert (generateToolMD5 n (Some d), model) (storedKeys db)"
proof (cases "find (\<lambda>r. tv_tool_md5 r = generateToolMD5 n (Some d) \<and> tv_model_name r = model)
    (tool_vectors db)")
  case None
  then show ?thesis
    by (simp add: saveToolVector_def storedKeys_def Let_def)
next
  case (Some existing)
  then have "existing \<in> set (tool_vectors db)"
    and "tv_tool_md5 existing = generateToolMD5 n (Some d)" "tv_model_name existing = model"
    by (auto simp: find_Some_iff)
  then have "(generateToolMD5 n (Some d), model) \<in> storedKeys db"
    by (force simp: storedKeys_def)
  moreover have "(\<lambda>r. (tv_tool_md5 r, tv_model_name r)) ` set (map (\<lambda>r. if tv_id r = tv_id existing
            then r\<lparr>tv_tool_name := n, tv_description := d\<rparr> else r) (tool_vectors db))
        = storedKeys db"
    unfolding storedKeys_def set_map image_image
    by (rule image_cong) simp_all
  ultimately show ?thesis using Some
    by (simp add: saveToolVector_def Let_def storedKeys_def insert_absorb)
qed

lemma storedKeys_saveToolVectorsBatch:
  "storedKeys (fst (saveToolVectorsBatch db ts model)) =
     storedKeys db \<union> (\<lambda>(n, d, v). (generateToolMD5 n (Some d), model)) ` set ts"
proof (induction ts arbitrary: db)
  case Nil
  show ?case by simp
next
  case (Cons t ts)
  obtain n d v where t: "t = (n, d, v)" by (cases t)
  have "fst (saveToolVectorsBatch db (t # ts) model) =
      fst (saveToolVectorsBatch (fst (saveToolVector db n d v model)) ts model)"
    by (simp add: t case_prod_beta)
  then show ?case
    using Cons [of "fst (saveToolVector db n d v model)"]
    by (simp add: t storedKeys_saveToolVector)
qed

lemma saveToolVectorsBatch_Nil_results: "snd (saveToolVectorsBatch db [] model) = []"
  by simp

lemma snd_vectorizeTools: "snd (vectorizeTools env db todo) = embeddedTools env todo"
  by (induction env db todo rule: vectorizeTools.induct) (auto split: sum.splits prod.splits)




lemma embeddedTools_mem:
  "(n, d) \<in> set todo \<Longrightarrow> vectorizeString env (trim (n @ '' '' @ d)) = Inr v
   \<Longrightarrow> (n, d, v) \<in> set (embeddedTools env todo)"
  by (induction env todo rule: embeddedTools.induct) (auto split: sum.splits)




section \<open>Indexing an unchanged catalog again\<close>




section \<open>Deleting superseded tools\<close>

lemma deleteMappedVectors_simps:
  "tool_vectors (deleteMappedVectors i db) = tool_vectors db"
  "tool_mapping (deleteMappedVectors i db) = filter (\<lambda>m. snd m \<noteq> i) (tool_mapping db)"
  "vec_tool_embeddings (deleteMappedVectors i db) =
     filter (\<lambda>e. fst e \<notin> fst ` {x \<in> set (tool_mapping db). snd x = i}) (vec_tool_embeddings db)"
  by (auto simp: deleteMappedVectors_def Let_def intro!: filter_cong)

lemma fold_deleteMappedVectors:
  "tool_vectors (fold deleteMappedVectors ids db) = tool_vectors db
   \<and> set (tool_mapping (fold deleteMappedVectors ids db)) =
       {x \<in> set (tool_mapping db). snd x \<notin> set ids}
   \<and> set (vec_tool_embeddings (fold deleteMappedVectors ids db)) =
       {e \<in> set (vec_tool_embeddings db).
          fst e \<notin> fst ` {x \<in> set (tool_mapping db). snd x \<in> set ids}}"
proof (induction ids arbitrary: db)
  case Nil
  show ?case by simp
next
  case (Cons i ids)
  from Cons [of "deleteMappedVectors i db"] show ?case
    by (simp add: deleteMappedVectors_simps) (auto simp: image_iff)
qed

lemma deleteToolVector_sets:
  defines "S \<equiv> selectedForDelete"
  shows "set (tool_vectors (fst (deleteToolVector db m mo))) =
       {r \<in> set (tool_vectors db). \<not> S m mo r}"
    and "set (tool_mapping (fst (deleteToolVector db m mo))) =
       {x \<in> set (tool_mapping db). snd x \<notin> tv_id ` {r \<in> set (tool_vectors db). S m mo r}}"
    and "set (vec_tool_embeddings (fst (deleteToolVector db m mo))) =
       {e \<in> set (vec_tool_embeddings db).
          fst e \<notin> fst ` {x \<in> set (tool_mapping db).
            snd x \<in> tv_id ` {r \<in> set (tool_vectors db). S m mo r}}}"
proof -
  let ?ids = "map tv_id (filter (selectedForDelete m mo) (tool_vectors db))"
  have ids: "set ?ids = tv_id ` {r \<in> set (tool_vectors db). S m mo r}"
    by (auto simp: S_def)
  show "set (tool_vectors (fst (deleteToolVector db m mo))) =
       {r \<in> set (tool_vectors db). \<not> S m mo r}"
    using fold_deleteMappedVectors [of ?ids db]
    by (auto simp: deleteToolVector_def Let_def S_def filter_empty_conv)
  show "set (tool_mapping (fst (deleteToolVector db m mo))) =
       {x \<in> set (tool_mapping db). snd x \<notin> tv_id ` {r \<in> set (tool_vectors db). S m mo r}}"
    using fold_deleteMappedVectors [of ?ids db] ids
    by (cases "?ids = []") (auto simp: deleteToolVector_def Let_def filter_empty_conv S_def)
  show "set (vec_tool_embeddings (fst (deleteToolVector db m mo))) =
       {e \<in> set (vec_tool_embeddings db).
          fst e \<notin> fst ` {x \<in> set (tool_mapping db).
            snd x \<in> tv_id ` {r \<in> set (tool_vectors db). S m mo r}}}"
    using fold_deleteMappedVectors [of ?ids db] ids
    by (cases "?ids = []") (auto simp: deleteToolVector_def Let_def filter_empty_conv S_def)
qed


lemma cleanedUp_initial: "r \<in> set (tool_vectors db0) \<Longrightarrow> cleanedUp db0 r db0"
  by (simp add: cleanedUp_def)

lemma cleanedUp_deleteToolVector:
  assumes "cleanedUp db0 r d"
  shows "cleanedUp db0 r (fst (deleteToolVector d m mo))"
  unfolding cleanedUp_def
proof (intro conjI impI ballI)
  fix x
  assume "r \<notin> set (tool_vectors (fst (deleteToolVector d m mo)))"
    and "x \<in> set (tool_mapping (fst (deleteToolVector d m mo)))"
  with assms show "snd x \<noteq> tv_id r"
    by (auto simp: deleteToolVector_sets cleanedUp_def)
next
  fix x
  assume "x \<in> set (tool_mapping db0)" and "snd x = tv_id r"
  with assms have "x \<in> set (tool_mapping d) \<or> fst x \<notin> fst ` set (vec_tool_embeddings d)"
    by (simp add: cleanedUp_def)
  then show "x \<in> set (tool_mapping (fst (deleteToolVector d m mo)))
      \<or> fst x \<notin> fst ` set (vec_tool_embeddings (fst (deleteToolVector d m mo)))"
    by (auto simp: deleteToolVector_sets)
qed

lemma cleanedUp_deleteOldTool:
  "cleanedUp db0 r d \<Longrightarrow> cleanedUp db0 r (deleteOldTool env c d)"
  by (simp add: deleteOldTool_def cleanedUp_deleteToolVector)

lemma tool_vectors_deleteOldTool:
  "set (tool_vectors (deleteOldTool env c d)) \<subseteq> set (tool_vectors d)"
  by (auto simp: deleteOldTool_def deleteToolVector_sets)

lemma selectedForDelete_same_model:
  "tv_tool_md5 r = m \<Longrightarrow> tv_model_name r = model \<Longrightarrow> selectedForDelete m (Some model) r"
  by (cases model) (simp_all add: selectedForDelete_def)

lemma deleteOldTool_removes:
  assumes "\<not> deleteFails env d (sr_tool_md5 c)"
    and "tv_tool_md5 r = sr_tool_md5 c" and "tv_model_name r = defaultModelName env"
  shows "r \<notin> set (tool_vectors (deleteOldTool env c d))"
  using assms selectedForDelete_same_model [of r "sr_tool_md5 c" "defaultModelName env"]
  by (simp add: deleteOldTool_def deleteToolVector_sets)

lemma fold_deleteOldTool_cleanedUp:
  "cleanedUp db0 r d \<Longrightarrow> cleanedUp db0 r (fold (deleteOldTool env) cs d)"
  by (induction cs arbitrary: d) (simp_all add: cleanedUp_deleteOldTool)

lemma fold_deleteOldTool_subset:
  "set (tool_vectors (fold (deleteOldTool env) cs d)) \<subseteq> set (tool_vectors d)"
proof (induction cs arbitrary: d)
  case Nil
  show ?case by simp
next
  case (Cons c cs)
  from Cons [of "deleteOldTool env c d"] tool_vectors_deleteOldTool [of env c d]
  show ?case by auto
qed

lemma fold_deleteOldTool_removes:
  assumes "\<forall>d m. \<not> deleteFails env d m" and "c \<in> set cs"
    and "tv_tool_md5 r = sr_tool_md5 c" and "tv_model_name r = defaultModelName env"
  shows "r \<notin> set (tool_vectors (fold (deleteOldTool env) cs d))"
  using assms(2)
proof (induction cs arbitrary: d)
  case Nil
  then show ?case by simp
next
  case (Cons c' cs)
  show ?case
  proof (cases "c' = c")
    case True
    from assms(1) have "\<not> deleteFails env d (sr_tool_md5 c)" by simp
    from deleteOldTool_removes [OF this assms(3,4)]
      fold_deleteOldTool_subset [of env cs "deleteOldTool env c d"]
    show ?thesis by (auto simp: True)
  next
    case False
    with Cons show ?thesis by simp
  qed
qed

lemma deleteSimilarTools_fold:
  "deleteSimilarTools env db v =
     fold (deleteOldTool env)
       (filter (\<lambda>c. sr_similarity c \<ge> 96 / 100) (searchSimilarVectors db v 10 (7 / 10) None)) db"
  by (simp add: deleteSimilarTools_def identifySimilarToolsToDelete_def Let_def)

lemma deleteSimilarTools_deletes:
  assumes "\<forall>d m. \<not> deleteFails env d m"
    and "c \<in> set (searchSimilarVectors db v 10 (7 / 10) None)" and "sr_similarity c \<ge> 96 / 100"
    and "r \<in> set (tool_vectors db)"
    and "tv_tool_md5 r = sr_tool_md5 c" and "tv_model_name r = defaultModelName env"
  shows "r \<notin> set (tool_vectors (deleteSimilarTools env db v))
    \<and> (\<forall>x \<in> set (tool_mapping (deleteSimilarTools env db v)). snd x \<noteq> tv_id r)
    \<and> (\<forall>x \<in> set (tool_mapping db). snd x = tv_id r \<longrightarrow>
          fst x \<notin> fst ` set (vec_tool_embeddings (deleteSimilarTools env db v)))"
proof -
  let ?cs = "filter (\<lambda>c. sr_similarity c \<ge> 96 / 100) (searchSimilarVectors db v 10 (7 / 10) None)"
  let ?d = "fold (deleteOldTool env) ?cs db"
  from assms(2,3) have "c \<in> set ?cs" by simp
  from fold_deleteOldTool_removes [OF assms(1) this assms(5,6)]
  have gone: "r \<notin> set (tool_vectors ?d)" .
  from fold_deleteOldTool_cleanedUp [OF cleanedUp_initial [OF assms(4)]]
  have "cleanedUp db r ?d" .
  with gone show ?thesis
    unfolding deleteSimilarTools_fold cleanedUp_def by blast
qed


lemma indexMCPTools_unfold:
  assumes "toolsToVectorize env db tools \<noteq> []"
  shows "indexMCPTools env db tools =
     saveToolVectorsBatch
       (fst (vectorizeTools env db (toolsToVectorize env db tools)))
       (embeddedTools env (toolsToVectorize env db tools)) (defaultModelName env)"
  using assms snd_vectorizeTools [of env db "toolsToVectorize env db tools"]
  by (simp add: indexMCPTools_def Let_def case_prod_beta)

lemma indexMCPTools_saves_new:
  assumes "t \<in> set tools" and "toolNameOf t \<noteq> []"
    and "getToolByMD5 db (calculatedMD5 t) (defaultModelName env) = None"
    and "vectorizeString env (trim (toolNameOf t @ '' '' @ descriptionOf t)) = Inr w"
  shows "getToolByMD5 (fst (indexMCPTools env db tools)) (calculatedMD5 t)
      (defaultModelName env) \<noteq> None"
proof -
  from assms(1-3) have mem: "(toolNameOf t, descriptionOf t) \<in> set (toolsToVectorize env db tools)"
    by (auto simp: toolsToVectorize_def)
  then have "toolsToVectorize env db tools \<noteq> []" by auto
  note unfold = indexMCPTools_unfold [OF this]
  from embeddedTools_mem [OF mem assms(4)]
  have "(calculatedMD5 t, defaultModelName env) \<in>
      (\<lambda>(n, d, v). (generateToolMD5 n (Some d), defaultModelName env)) `
        set (embeddedTools env (toolsToVectorize env db tools))"
    by (force simp: calculatedMD5_def)
  then show ?thesis
    by (simp add: unfold getToolByMD5_None_iff storedKeys_saveToolVectorsBatch)
qed

lemma vectorizeTools_step:
  "vectorizeString env (trim (n @ '' '' @ d)) = Inr v \<Longrightarrow>
   fst (vectorizeTools env db ((n, d) # post)) =
     fst (vectorizeTools env (deleteSimilarTools env db v) post)"
  by (simp add: case_prod_beta)

lemma vectorizeTools_append:
  "fst (vectorizeTools env db (pre @ rest)) =
     fst (vectorizeTools env (fst (vectorizeTools env db pre)) rest)"
proof (induction pre arbitrary: db)
  case Nil
  show ?case by simp
next
  case (Cons t pre)
  obtain n d where t: "t = (n, d)" by (cases t)
  show ?case
  proof (cases "vectorizeString env (trim (n @ '' '' @ d))")
    case (Inl e)
    with Cons show ?thesis by (simp add: t)
  next
    case (Inr v)
    with Cons [of "deleteSimilarTools env db v"] show ?thesis
      by (simp add: t case_prod_beta)
  qed
qed

lemma vectorizeTools_link:
  assumes "vectorizeString env (trim (n @ '' '' @ d)) = Inr v"
  shows "fst (vectorizeTools env db (pre @ (n, d) # post)) =
     fst (vectorizeTools env (deleteSimilarTools env (fst (vectorizeTools env db pre)) v) post)"
  using vectorizeTools_step [OF assms] by (simp add: vectorizeTools_append)

lemma deleteSimilarTools_subset:
  "set (tool_vectors (deleteSimilarTools env db v)) \<subseteq> set (tool_vectors db)"
  unfolding deleteSimilarTools_fold by (rule fold_deleteOldTool_subset)

lemma deleteSimilarTools_cleanedUp:
  "cleanedUp db0 r d \<Longrightarrow> cleanedUp db0 r (deleteSimilarTools env d v)"
  unfolding deleteSimilarTools_fold by (rule fold_deleteOldTool_cleanedUp)

lemma vectorizeTools_subset:
  "set (tool_vectors (fst (vectorizeTools env db todo))) \<subseteq> set (tool_vectors db)"
proof (induction todo arbitrary: db)
  case Nil
  show ?case by simp
next
  case (Cons t todo)
  obtain n d where t: "t = (n, d)" by (cases t)
  show ?case
  proof (cases "vectorizeString env (trim (n @ '' '' @ d))")
    case (Inl e)
    with Cons show ?thesis by (simp add: t)
  next
    case (Inr v)
    from Cons [of "deleteSimilarTools env db v"] deleteSimilarTools_subset [of env db v]
    show ?thesis unfolding t vectorizeTools_step [OF Inr] by auto
  qed
qed

lemma vectorizeTools_cleanedUp:
  "cleanedUp db0 r d \<Longrightarrow> cleanedUp db0 r (fst (vectorizeTools env d todo))"
proof (induction todo arbitrary: d)
  case Nil
  then show ?case by simp
next
  case (Cons t todo)
  obtain n d' where t: "t = (n, d')" by (cases t)
  show ?case
  proof (cases "vectorizeString env (trim (n @ '' '' @ d'))")
    case (Inl e)
    with Cons show ?thesis by (simp add: t)
  next
    case (Inr v)
    from Cons.IH [OF deleteSimilarTools_cleanedUp [OF Cons.prems, of env v]]
    show ?thesis unfolding t vectorizeTools_step [OF Inr] .
  qed
qed

lemma embeddedTools_subset:
  "(n, d, v) \<in> set (embeddedTools env todo) \<Longrightarrow> (n, d) \<in> set todo"
  by (induction env todo rule: embeddedTools.induct) (auto split: sum.splits)

lemma toolsToVectorize_not_stored:
  "(n, d) \<in> set (toolsToVectorize env db tools) \<Longrightarrow>
   (generateToolMD5 n (Some d), defaultModelName env) \<notin> storedKeys db"
  by (auto simp: toolsToVectorize_def getToolByMD5_None_iff calculatedMD5_def)

lemma indexMCPTools_deletes:
  assumes nofail: "\<forall>d m. \<not> deleteFails env d m"
    and todo: "toolsToVectorize env db tools = pre @ (n, d) # post"
    and v: "vectorizeString env (trim (n @ '' '' @ d)) = Inr v"
    and c: "c \<in> set (searchSimilarVectors (fst (vectorizeTools env db pre)) v 10 (7 / 10) None)"
      "sr_similarity c \<ge> 96 / 100"
    and r: "r \<in> set (tool_vectors (fst (vectorizeTools env db pre)))"
      "tv_tool_md5 r = sr_tool_md5 c" "tv_model_name r = defaultModelName env"
  shows "(tv_tool_md5 r, tv_model_name r) \<notin> storedKeys (fst (indexMCPTools env db tools))"
    and "r \<notin> set (tool_vectors (fst (vectorizeTools env db (toolsToVectorize env db tools))))"
    and "\<forall>x \<in> set (tool_mapping (fst (vectorizeTools env db (toolsToVectorize env db tools)))).
           snd x \<noteq> tv_id r"
    and "\<forall>x \<in> set (tool_mapping (fst (vectorizeTools env db pre))). snd x = tv_id r \<longrightarrow>
           fst x \<notin> fst ` set (vec_tool_embeddings
             (fst (vectorizeTools env db (toolsToVectorize env db tools))))"
proof -
  define dbk where "dbk = fst (vectorizeTools env db pre)"
  define d1 where "d1 = deleteSimilarTools env dbk v"
  define cleaned where "cleaned = fst (vectorizeTools env db (toolsToVectorize env db tools))"
  have cleaned: "cleaned = fst (vectorizeTools env d1 post)"
    by (simp add: cleaned_def todo vectorizeTools_link [OF v] d1_def dbk_def)
  have sub: "set (tool_vectors cleaned) \<subseteq> set (tool_vectors d1)"
    unfolding cleaned by (rule vectorizeTools_subset)
  have gone: "r' \<notin> set (tool_vectors cleaned)"
    if "tv_tool_md5 r' = sr_tool_md5 c" "tv_model_name r' = defaultModelName env" for r'
  proof
    assume "r' \<in> set (tool_vectors cleaned)"
    with sub have in1: "r' \<in> set (tool_vectors d1)" by auto
    with deleteSimilarTools_subset [of env dbk v] have "r' \<in> set (tool_vectors dbk)"
      by (auto simp: d1_def)
    from deleteSimilarTools_deletes [OF nofail c [folded dbk_def] this that] in1
    show False by (simp add: d1_def)
  qed
  from gone [OF r(2,3)] show r_gone: "r \<notin> set (tool_vectors
      (fst (vectorizeTools env db (toolsToVectorize env db tools))))"
    by (simp add: cleaned_def)
  from r(1) have "r \<in> set (tool_vectors dbk)"
    by (simp add: dbk_def)
  then have "cleanedUp dbk r cleaned"
    unfolding cleaned d1_def
    by (intro vectorizeTools_cleanedUp deleteSimilarTools_cleanedUp cleanedUp_initial)
  with r_gone show "\<forall>x \<in> set (tool_mapping
      (fst (vectorizeTools env db (toolsToVectorize env db tools)))). snd x \<noteq> tv_id r"
    and "\<forall>x \<in> set (tool_mapping (fst (vectorizeTools env db pre))). snd x = tv_id r \<longrightarrow>
           fst x \<notin> fst ` set (vec_tool_embeddings
             (fst (vectorizeTools env db (toolsToVectorize env db tools))))"
    unfolding cleanedUp_def cleaned_def dbk_def by blast+
  have notin: "(tv_tool_md5 r, tv_model_name r) \<notin> storedKeys cleaned"
    using gone r(2,3) by (auto simp: storedKeys_def)
  from r(1) vectorizeTools_subset [of env db pre] have "r \<in> set (tool_vectors db)"
    by auto
  then have stored: "(tv_tool_md5 r, tv_model_name r) \<in> storedKeys db"
    by (auto simp: storedKeys_def)
  have new: "(tv_tool_md5 r, tv_model_name r) \<notin>
      (\<lambda>(n, d, v). (generateToolMD5 n (Some d), defaultModelName env)) `
        set (embeddedTools env (toolsToVectorize env db tools))"
  proof
    assume "(tv_tool_md5 r, tv_model_name r) \<in>
      (\<lambda>(n, d, v). (generateToolMD5 n (Some d), defaultModelName env)) `
        set (embeddedTools env (toolsToVectorize env db tools))"
    then obtain n' d' v' where "(n', d', v') \<in> set (embeddedTools env (toolsToVectorize env db tools))"
      and key: "(tv_tool_md5 r, tv_model_name r) = (generateToolMD5 n' (Some d'), defaultModelName env)"
      by auto
    from toolsToVectorize_not_stored [OF embeddedTools_subset [OF this(1)]] stored key
    show False by simp
  qed
  have "toolsToVectorize env db tools \<noteq> []" by (simp add: todo)
  from indexMCPTools_unfold [OF this] notin new
  show "(tv_tool_md5 r, tv_model_name r) \<notin> storedKeys (fst (indexMCPTools env db tools))"
    by (simp add: storedKeys_saveToolVectorsBatch cleaned_def)
qed

text \<open>
  Claim C3 says that for a tool not yet stored under \<open>(tool_md5, model_name)\<close> the indexer
  deletes every existing tool whose similarity to the new vector is at least 0.96.  The
  delete is by the old tool's digest and the indexer's model name, the search by vector
  alone: a tool stored under another model is found at similarity 40/41, about 0.976, and
  stays.
\<close>

theorem indexMCPTools_supersedes_counterexample:
  "map sr_similarity (searchSimilarVectors (indexOfA 1) (vector2 (40 / 41) (9 / 41)) 10 (7 / 10) None) = [40 / 41]
   \<and> map (\<lambda>r. (tv_tool_name r, tv_model_name r))
       (tool_vectors (fst (indexMCPTools (nearDuplicateEnv\<lparr>defaultModelName := ''m2''\<rparr>)
          (indexOfA 1) [toolB])))
     = [(''srv__a'', ''m''), (''srv__b'', ''m2'')]"
  by (simp add: nearDuplicateEnv_def toolA_def toolB_def emptyDatabase_def indexOfA_def
      indexOfB_def index_eval)

text \<open>
  Claim C3 as amended.  The indexer saves, in one batch, on the database its loop leaves.
  For a tool with vector \<open>v\<close> the loop goes on from the database cleaned for \<open>v\<close>: it
  searches with \<open>searchSimilarVectors(v, 10, 0.7)\<close>, no server filter, and runs the delete
  for each returned tool of similarity 0.96 or more.  When no delete throws, every row
  stored under the digest of such a tool and the indexer's model name is gone afterwards,
  together with its mapping rows and the vectors they pointed to; it is still gone from the
  database the loop leaves, and no tool is stored under that digest and model in the
  database the indexer returns.  Whether or not a delete throws, a named tool that was not
  stored and whose embedding succeeds is stored when the indexer returns.
\<close>

theorem indexMCPTools_supersedes:
  "(toolsToVectorize env db tools \<noteq> [] \<longrightarrow>
      indexMCPTools env db tools =
        saveToolVectorsBatch
          (fst (vectorizeTools env db (toolsToVectorize env db tools)))
          (embeddedTools env (toolsToVectorize env db tools)) (defaultModelName env))
   \<and> (vectorizeString env (trim (n @ '' '' @ d)) = Inr v \<longrightarrow>
      fst (vectorizeTools env db (pre @ (n, d) # post)) =
        fst (vectorizeTools env (deleteSimilarTools env (fst (vectorizeTools env db pre)) v) post))
   \<and> deleteSimilarTools env db v =
     fold (deleteOldTool env)
       (filter (\<lambda>c. sr_similarity c \<ge> 96 / 100) (searchSimilarVectors db v 10 (7 / 10) None)) db
   \<and> ((\<forall>d m. \<not> deleteFails env d m)
        \<and> c \<in> set (searchSimilarVectors db v 10 (7 / 10) None) \<and> sr_similarity c \<ge> 96 / 100
        \<and> r \<in> set (tool_vectors db)
        \<and> tv_tool_md5 r = sr_tool_md5 c \<and> tv_model_name r = defaultModelName env \<longrightarrow>
      r \<notin> set (tool_vectors (deleteSimilarTools env db v))
      \<and> (\<forall>x \<in> set (tool_mapping (deleteSimilarTools env db v)). snd x \<noteq> tv_id r)
      \<and> (\<forall>x \<in> set (tool_mapping db). snd x = tv_id r \<longrightarrow>
            fst x \<notin> fst ` set (vec_tool_embeddings (deleteSimilarTools env db v))))
   \<and> ((\<forall>d m. \<not> deleteFails env d m)
        \<and> toolsToVectorize env db tools = pre @ (n, d) # post
        \<and> vectorizeString env (trim (n @ '' '' @ d)) = Inr v
        \<and> c \<in> set (searchSimilarVectors (fst (vectorizeTools env db pre)) v 10 (7 / 10) None)
        \<and> sr_similarity c \<ge> 96 / 100
        \<and> r \<in> set (tool_vectors (fst (vectorizeTools env db pre)))
        \<and> tv_tool_md5 r = sr_tool_md5 c \<and> tv_model_name r = defaultModelName env \<longrightarrow>
      (tv_tool_md5 r, tv_model_name r) \<notin> storedKeys (fst (indexMCPTools env db tools))
      \<and> r \<notin> set (tool_vectors (fst (vectorizeTools env db (toolsToVectorize env db tools))))
      \<and> (\<forall>x \<in> set (tool_mapping (fst (vectorizeTools env db (toolsToVectorize env db tools)))).
            snd x \<noteq> tv_id r)
      \<and> (\<forall>x \<in> set (tool_mapping (fst (vectorizeTools env db pre))). snd x = tv_id r \<longrightarrow>
            fst x \<notin> fst ` set (vec_tool_embeddings
              (fst (vectorizeTools env db (toolsToVectorize env db tools))))))
   \<and> (t \<in> set tools \<and> toolNameOf t \<noteq> []
        \<and> getToolByMD5 db (calculatedMD5 t) (defaultModelName env) = None
        \<and> vectorizeString env (trim (toolNameOf t @ '' '' @ descriptionOf t)) = Inr w \<longrightarrow>
      getToolByMD5 (fst (indexMCPTools env db tools)) (calculatedMD5 t)
        (defaultModelName env) \<noteq> None)"
proof (intro conjI)
  show "toolsToVectorize env db tools \<noteq> [] \<longrightarrow>
      indexMCPTools env db tools =
        saveToolVectorsBatch
          (fst (vectorizeTools env db (toolsToVectorize env db tools)))
          (embeddedTools env (toolsToVectorize env db tools)) (defaultModelName env)"
    using indexMCPTools_unfold [of env db tools] by blast
  show "vectorizeString env (trim (n @ '' '' @ d)) = Inr v \<longrightarrow>
      fst (vectorizeTools env db (pre @ (n, d) # post)) =
        fst (vectorizeTools env (deleteSimilarTools env (fst (vectorizeTools env db pre)) v) post)"
    using vectorizeTools_link [of env n d v db pre post] by blast
  show "deleteSimilarTools env db v =
     fold (deleteOldTool env)
       (filter (\<lambda>c. sr_similarity c \<ge> 96 / 100) (searchSimilarVectors db v 10 (7 / 10) None)) db"
    by (rule deleteSimilarTools_fold)
  show "(\<forall>d m. \<not> deleteFails env d m)
        \<and> c \<in> set (searchSimilarVectors db v 10 (7 / 10) None) \<and> sr_similarity c \<ge> 96 / 100
        \<and> r \<in> set (tool_vectors db)
        \<and> tv_tool_md5 r = sr_tool_md5 c \<and> tv_model_name r = defaultModelName env \<longrightarrow>
      r \<notin> set (tool_vectors (deleteSimilarTools env db v))
      \<and> (\<forall>x \<in> set (tool_mapping (deleteSimilarTools env db v)). snd x \<noteq> tv_id r)
      \<and> (\<forall>x \<in> set (tool_mapping db). snd x = tv_id r \<longrightarrow>
            fst x \<notin> fst ` set (vec_tool_embeddings (deleteSimilarTools env db v)))"
    using deleteSimilarTools_deletes [of env c db v r] by blast
  show "(\<forall>d m. \<not> deleteFails env d m)
        \<and> toolsToVectorize env db tools = pre @ (n, d) # post
        \<and> vectorizeString env (trim (n @ '' '' @ d)) = Inr v
        \<and> c \<in> set (searchSimilarVectors (fst (vectorizeTools env db pre)) v 10 (7 / 10) None)
        \<and> sr_similarity c \<ge> 96 / 100
        \<and> r \<in> set (tool_vectors (fst (vectorizeTools env db pre)))
        \<and> tv_tool_md5 r = sr_tool_md5 c \<and> tv_model_name r = defaultModelName env \<longrightarrow>
      (tv_tool_md5 r, tv_model_name r) \<notin> storedKeys (fst (indexMCPTools env db tools))
      \<and> r \<notin> set (tool_vectors (fst (vectorizeTools env db (toolsToVectorize env db tools))))
      \<and> (\<forall>x \<in> set (tool_mapping (fst (vectorizeTools env db (toolsToVectorize env db tools)))).
            snd x \<noteq> tv_id r)
      \<and> (\<forall>x \<in> set (tool_mapping (fst (vectorizeTools env db pre))). snd x = tv_id r \<longrightarrow>
            fst x \<notin> fst ` set (vec_tool_embeddings
              (fst (vectorizeTools env db (toolsToVectorize env db tools)))))"
    using indexMCPTools_deletes [of env db tools pre n d post v c r] by blast
  show "t \<in> set tools \<and> toolNameOf t \<noteq> []
        \<and> getToolByMD5 db (calculatedMD5 t) (defaultModelName env) = None
        \<and> vectorizeString env (trim (toolNameOf t @ '' '' @ descriptionOf t)) = Inr w \<longrightarrow>
      getToolByMD5 (fst (indexMCPTools env db tools)) (calculatedMD5 t)
        (defaultModelName env) \<noteq> None"
    using indexMCPTools_saves_new [of t tools db env w] by blast
qed

theorem indexMCPTools_supersedes_witness:
  "toolsToVectorize nearDuplicateEnv (indexOfA 1) [toolA, toolB] = [(''srv__b'', ''writes a file'')]
   \<and> searchSimilarVectors (indexOfA 1) (vector2 (40 / 41) (9 / 41)) 10 (7 / 10) None =
     [\<lparr>sr_id = 1, sr_tool_md5 = ''89ac6e6d9e7441bc05d811702197381d'', sr_model_name = ''m'',
       sr_tool_name = ''srv__a'', sr_description = ''reads a file'', sr_distance = 1 / 41,
       sr_similarity = 40 / 41\<rparr>]
   \<and> deleteSimilarTools nearDuplicateEnv (indexOfA 1) (vector2 (40 / 41) (9 / 41)) =
     emptyDatabase\<lparr>tool_vectors_seq := 1, vec_tool_embeddings_seq := 1\<rparr>
   \<and> fst (vectorizeTools nearDuplicateEnv (indexOfA 1) [(''srv__b'', ''writes a file'')]) =
     emptyDatabase\<lparr>tool_vectors_seq := 1, vec_tool_embeddings_seq := 1\<rparr>
   \<and> indexMCPTools nearDuplicateEnv (indexOfA 1) [toolA, toolB] = (indexOfB, [2])
   \<and> (''89ac6e6d9e7441bc05d811702197381d'', ''m'') \<notin> storedKeys indexOfB
   \<and> map tv_tool_name (tool_vectors (fst (indexMCPTools
         (nearDuplicateEnv\<lparr>deleteFails := \<lambda>db m. True\<rparr>) (indexOfA 1) [toolA, toolB])))
     = [''srv__a'', ''srv__b'']"
  using indexMCPTools_supersedes [where env = nearDuplicateEnv and db = "indexOfA 1"
      and v = "vector2 (40 / 41) (9 / 41)" and tools = "[toolA, toolB]" and t = toolB
      and w = "vector2 (40 / 41) (9 / 41)" and pre = "[]" and post = "[]"
      and n = "''srv__b''" and d = "''writes a file''"
      and r = "\<lparr>tv_id = 1, tv_tool_md5 = ''89ac6e6d9e7441bc05d811702197381d'', tv_model_name = ''m'',
        tv_tool_name = ''srv__a'', tv_description = ''reads a file''\<rparr>"
      and c = "\<lparr>sr_id = 1, sr_tool_md5 = ''89ac6e6d9e7441bc05d811702197381d'', sr_model_name = ''m'',
       sr_tool_name = ''srv__a'', sr_description = ''reads a file'', sr_distance = 1 / 41,
       sr_similarity = 40 / 41\<rparr>"]
    indexMCPTools_supersedes [where env = "nearDuplicateEnv\<lparr>deleteFails := \<lambda>db m. True\<rparr>"
      and db = "indexOfA 1"
      and v = "vector2 (40 / 41) (9 / 41)" and tools = "[toolA, toolB]" and t = toolB
      and w = "vector2 (40 / 41) (9 / 41)" and pre = "[]" and post = "[]"
      and n = "''srv__b''" and d = "''writes a file''"
      and r = "\<lparr>tv_id = 1, tv_tool_md5 = ''89ac6e6d9e7441bc05d811702197381d'', tv_model_name = ''m'',
        tv_tool_name = ''srv__a'', tv_description = ''reads a file''\<rparr>"
      and c = "\<lparr>sr_id = 1, sr_tool_md5 = ''89ac6e6d9e7441bc05d811702197381d'', sr_model_name = ''m'',
       sr_tool_name = ''srv__a'', sr_description = ''reads a file'', sr_distance = 1 / 41,
       sr_similarity = 40 / 41\<rparr>"]
  by (simp add: nearDuplicateEnv_def toolA_def toolB_def emptyDatabase_def indexOfA_def
      indexOfB_def index_eval storedKeys_def)


section \<open>Retrieving again in the same session\<close>

lemma historyMD5s_alt:
  "historyMD5s db s = sh_tool_md5 ` {h \<in> set (session_tool_history db). sh_session_id h = s}"
  by (auto simp: historyMD5s_def getSessionHistory_def)

lemma getSessionHistory_Nil_iff: "getSessionHistory db s = [] \<longleftrightarrow> historyMD5s db s = {}"
  by (simp add: historyMD5s_def)

lemma recordSessionToolRetrieval_effect:
  "sameTools db (fst (recordSessionToolRetrieval db s m n))
   \<and> historyMD5s (fst (recordSessionToolRetrieval db s m n)) s = insert m (historyMD5s db s)"
proof (cases "list_ex (\<lambda>h. sh_session_id h = s \<and> sh_tool_md5 h = m) (session_tool_history db)")
  case True
  then have "m \<in> historyMD5s db s"
    by (force simp: historyMD5s_alt list_ex_iff)
  with True show ?thesis
    by (simp add: recordSessionToolRetrieval_def sameTools_def insert_absorb)
next
  case False
  let ?row = "\<lparr>sh_session_id = s, sh_tool_md5 = m, sh_tool_name = n\<rparr>"
  have "{h \<in> set (session_tool_history db @ [?row]). sh_session_id h = s} =
      insert ?row {h \<in> set (session_tool_history db). sh_session_id h = s}"
    by auto
  with False show ?thesis
    by (simp add: recordSessionToolRetrieval_def sameTools_def historyMD5s_alt)
qed

lemma sameTools_trans: "sameTools a b \<Longrightarrow> sameTools b c \<Longrightarrow> sameTools a c"
  by (simp add: sameTools_def)

lemma recordSessionToolRetrievalBatch_effect:
  "sameTools db (fst (recordSessionToolRetrievalBatch db s ts))
   \<and> historyMD5s (fst (recordSessionToolRetrievalBatch db s ts)) s = historyMD5s db s \<union> fst ` set ts"
proof (induction ts arbitrary: db)
  case Nil
  show ?case by (simp add: sameTools_def)
next
  case (Cons t ts)
  obtain m n where t: "t = (m, n)" by (cases t)
  have step: "fst (recordSessionToolRetrievalBatch db s (t # ts)) =
      fst (recordSessionToolRetrievalBatch (fst (recordSessionToolRetrieval db s m n)) s ts)"
    by (simp add: t case_prod_beta)
  from Cons [of "fst (recordSessionToolRetrieval db s m n)"]
    recordSessionToolRetrieval_effect [of db s m n]
  show ?case
    unfolding step by (auto simp: t intro: sameTools_trans)
qed

lemma sameTools_joinedRows:
  assumes "sameTools db db'"
  shows "joinedRows db' q = joinedRows db q"
proof -
  from assms have eq: "tool_vectors db' = tool_vectors db"
    "vec_tool_embeddings db' = vec_tool_embeddings db" "tool_mapping db' = tool_mapping db"
    by (simp_all add: sameTools_def)
  show ?thesis unfolding joinedRows_def eq ..
qed

lemma sameTools_searchSimilarVectors:
  "sameTools db db' \<Longrightarrow> searchSimilarVectors db' q k thr sn = searchSimilarVectors db q k thr sn"
  unfolding searchSimilarVectors_def by (simp only: sameTools_joinedRows)

lemma sameTools_recommendTools:
  "sameTools db db' \<Longrightarrow> recommendTools env db' d k thr inc sn = recommendTools env db d k thr inc sn"
  unfolding recommendTools_def searchSimilarTools_def
  by (simp only: sameTools_searchSimilarVectors)

lemma sameTools_retrieveAll:
  "sameTools db db' \<Longrightarrow> retrieveAll env db' K sn i D = retrieveAll env db K sn i D"
  by (induction D arbitrary: i) (simp_all add: sameTools_recommendTools cong: sum.case_cong)

lemma map_snd_filter_enumerate:
  "map snd (filter (\<lambda>(index, rec). P rec) (enumerate n xs)) = filter P xs"
  by (induction xs arbitrary: n) auto

lemma new_md5s_of_query:
  "fi_md5 ` set (newToolsForQuery K recs) = {rec_tool_md5 rec | rec. rec \<in> set recs \<and> rec_tool_md5 rec \<notin> set K}"
proof -
  have "map fi_md5 (newToolsForQuery K recs) =
      map rec_tool_md5 (map snd (filter (\<lambda>(index, rec). rec_tool_md5 rec \<notin> set K) (enumerate 0 recs)))"
    by (simp add: newToolsForQuery_def case_prod_beta)
  also have "\<dots> = map rec_tool_md5 (filter (\<lambda>rec. rec_tool_md5 rec \<notin> set K) recs)"
    by (simp only: map_snd_filter_enumerate)
  finally have "set (map fi_md5 (newToolsForQuery K recs)) =
      set (map rec_tool_md5 (filter (\<lambda>rec. rec_tool_md5 rec \<notin> set K) recs))"
    by simp
  then show ?thesis by auto
qed

lemma length_newToolsForQuery:
  "length (newToolsForQuery K recs) = length (filter (\<lambda>rec. rec_tool_md5 rec \<notin> set K) recs)"
proof -
  have "length (newToolsForQuery K recs) =
      length (map snd (filter (\<lambda>(index, rec). rec_tool_md5 rec \<notin> set K) (enumerate 0 recs)))"
    by (simp add: newToolsForQuery_def)
  then show ?thesis by (simp only: map_snd_filter_enumerate)
qed

lemma length_knownToolsForQuery:
  "length (knownToolsForQuery K recs) = length (filter (\<lambda>rec. rec_tool_md5 rec \<in> set K) recs)"
proof -
  have "length (knownToolsForQuery K recs) =
      length (map snd (filter (\<lambda>(index, rec). rec_tool_md5 rec \<in> set K) (enumerate 0 recs)))"
    by (simp add: knownToolsForQuery_def)
  then show ?thesis by (simp only: map_snd_filter_enumerate)
qed

lemma length_new_known:
  "length (newToolsForQuery K recs) + length (knownToolsForQuery K recs) = length recs"
  using sum_length_filter_compl [of "\<lambda>rec. rec_tool_md5 rec \<in> set K" recs]
  by (simp add: length_newToolsForQuery length_knownToolsForQuery)

lemma all_known:
  assumes "\<forall>rec \<in> set recs. rec_tool_md5 rec \<in> set K"
  shows "newToolsForQuery K recs = []" and "length (knownToolsForQuery K recs) = length recs"
proof -
  from assms have "filter (\<lambda>rec. rec_tool_md5 rec \<notin> set K) recs = []"
    by (simp add: filter_empty_conv)
  then have "length (newToolsForQuery K recs) = 0"
    by (simp add: length_newToolsForQuery)
  then show "newToolsForQuery K recs = []" by simp
  with length_new_known [of K recs] show "length (knownToolsForQuery K recs) = length recs"
    by simp
qed

lemma countTools_simps [simp]:
  "countTools [] = 0"
  "countTools (x # xs) = length (qr_tools x) + countTools xs"
  "countTools (xs @ ys) = countTools xs + countTools ys"
  by (simp_all add: countTools_def)

lemma newMD5s_simps [simp]:
  "newMD5s [] = {}"
  "newMD5s (x # xs) = fi_md5 ` set (qr_tools x) \<union> newMD5s xs"
  "newMD5s (xs @ ys) = newMD5s xs \<union> newMD5s ys"
  by (auto simp: newMD5s_def)

lemma retrieveAll_replay:
  assumes "retrieveAll env db K1 sn i D = Inr (n1, k1)"
    and "set K1 \<subseteq> set K2" and "newMD5s n1 \<subseteq> set K2"
  shows "\<exists>k2. retrieveAll env db K2 sn i D = Inr ([], k2)
      \<and> countTools k2 = countTools n1 + countTools k1"
  using assms(1,3)
proof (induction D arbitrary: i n1 k1)
  case Nil
  then show ?case by simp
next
  case (Cons d D)
  from Cons.prems(1) obtain recs where recs:
    "recommendTools env db d (topK env) (threshold env) True sn = Inr recs"
    by (auto split: sum.splits)
  with Cons.prems(1) obtain n' k' where rest: "retrieveAll env db K1 sn (Suc i) D = Inr (n', k')"
    by (auto split: sum.splits)
  let ?new1 = "newToolsForQuery K1 recs" and ?known1 = "knownToolsForQuery K1 recs"
  from Cons.prems(1) recs rest have n1: "n1 =
      (if ?new1 \<noteq> [] then [\<lparr>qr_query_index = i, qr_query = d, qr_tools = ?new1\<rparr>] else []) @ n'"
    and k1: "k1 =
      (if ?known1 \<noteq> [] then [\<lparr>qr_query_index = i, qr_query = d, qr_tools = ?known1\<rparr>] else []) @ k'"
    by simp_all
  from n1 Cons.prems(2) have sub: "newMD5s n' \<subseteq> set K2" and head: "fi_md5 ` set ?new1 \<subseteq> set K2"
    by (auto split: if_splits)
  from Cons.IH [OF rest sub] obtain k2' where k2':
    "retrieveAll env db K2 sn (Suc i) D = Inr ([], k2')"
    "countTools k2' = countTools n' + countTools k'"
    by blast
  have "\<forall>rec \<in> set recs. rec_tool_md5 rec \<in> set K2"
  proof
    fix rec assume rec: "rec \<in> set recs"
    show "rec_tool_md5 rec \<in> set K2"
    proof (cases "rec_tool_md5 rec \<in> set K1")
      case True
      with assms(2) show ?thesis by auto
    next
      case False
      with rec have "rec_tool_md5 rec \<in> fi_md5 ` set ?new1"
        unfolding new_md5s_of_query by blast
      with head show ?thesis by auto
    qed
  qed
  from all_known [OF this] have new2: "newToolsForQuery K2 recs = []"
    and known2: "length (knownToolsForQuery K2 recs) = length recs" .
  have cnt: "countTools n1 + countTools k1 = length recs + (countTools n' + countTools k')"
    using length_new_known [of K1 recs] by (auto simp: n1 k1)
  show ?case
    using recs k2' new2 known2 cnt by auto
qed


lemma sameTools_refl: "sameTools db db"
  by (simp add: sameTools_def)

lemma retriever_replay:
  assumes call1: "retriever env db rnd1 D sid sn = (db1, Inr r1)"
    and ne: "session_id r1 \<noteq> []"
  shows "\<exists>r2. retriever env db1 rnd2 D (session_id r1) sn = (db1, Inr r2)
      \<and> new_tools r2 = [] \<and> new_tools_count (summary r2) = 0
      \<and> new_tools_count (summary r1) \<le> known_tools_count (summary r2)"
    and "newMD5s (new_tools r1) \<subseteq> historyMD5s db1 (session_id r1)"
proof -
  define s1 where "s1 =
    (if (if sid \<noteq> [] then getSessionHistory db sid = [] else True)
     then generateSessionId rnd1 else sid)"
  define K1 where "K1 = map sh_tool_md5 (getSessionHistory db s1)"
  from call1 obtain n1 k1 where ra: "retrieveAll env db K1 sn 0 D = Inr (n1, k1)"
    by (auto simp: retriever_def Let_def s1_def K1_def split: sum.splits)
  define recd where "recd =
    concat (map (\<lambda>queryResult. map (\<lambda>tool. (fi_md5 tool, fi_tool_name tool))
      (qr_tools queryResult)) n1)"
  from call1 ra have db1: "db1 =
      (if n1 \<noteq> [] \<and> recd \<noteq> [] then fst (recordSessionToolRetrievalBatch db s1 recd) else db)"
    and r1: "session_id r1 = s1" "new_tools r1 = n1"
      "new_tools_count (summary r1) = countTools n1"
    by (auto simp: retriever_def Let_def s1_def K1_def recd_def)
  have recd: "fst ` set recd = newMD5s n1"
    by (force simp: recd_def newMD5s_def)
  have K1: "set K1 = historyMD5s db s1"
    by (simp add: K1_def historyMD5s_def)
  have same: "sameTools db db1" and hist: "historyMD5s db1 s1 = set K1 \<union> newMD5s n1"
  proof -
    show "sameTools db db1"
      using recordSessionToolRetrievalBatch_effect [of db s1 recd]
      by (simp add: db1 sameTools_refl)
    show "historyMD5s db1 s1 = set K1 \<union> newMD5s n1"
    proof (cases "n1 \<noteq> [] \<and> recd \<noteq> []")
      case True
      with recordSessionToolRetrievalBatch_effect [of db s1 recd] show ?thesis
        by (simp add: db1 K1 recd)
    next
      case False
      then have "newMD5s n1 = {}"
        using recd by auto
      with False show ?thesis by (auto simp: db1 K1)
    qed
  qed
  from hist r1 show "newMD5s (new_tools r1) \<subseteq> historyMD5s db1 (session_id r1)"
    by simp
  define s2 where "s2 = (if getSessionHistory db1 s1 = [] then generateSessionId rnd2 else s1)"
  define K2 where "K2 = map sh_tool_md5 (getSessionHistory db1 s2)"
  have sub: "set K1 \<subseteq> set K2" "newMD5s n1 \<subseteq> set K2"
  proof -
    have "set K1 \<union> newMD5s n1 \<subseteq> set K2"
    proof (cases "getSessionHistory db1 s1 = []")
      case True
      then have "historyMD5s db1 s1 = {}" by (simp add: getSessionHistory_Nil_iff)
      with hist show ?thesis by simp
    next
      case False
      then have "set K2 = historyMD5s db1 s1"
        by (simp add: K2_def s2_def historyMD5s_def)
      with hist show ?thesis by simp
    qed
    then show "set K1 \<subseteq> set K2" "newMD5s n1 \<subseteq> set K2" by simp_all
  qed
  from retrieveAll_replay [OF ra sub] obtain k2 where
    "retrieveAll env db K2 sn 0 D = Inr ([], k2)" and cnt: "countTools k2 = countTools n1 + countTools k1"
    by blast
  with sameTools_retrieveAll [OF same] have ra2: "retrieveAll env db1 K2 sn 0 D = Inr ([], k2)"
    by simp
  from ne r1 have "s1 \<noteq> []" by simp
  with ra2 cnt show "\<exists>r2. retriever env db1 rnd2 D (session_id r1) sn = (db1, Inr r2)
      \<and> new_tools r2 = [] \<and> new_tools_count (summary r2) = 0
      \<and> new_tools_count (summary r1) \<le> known_tools_count (summary r2)"
    by (simp add: retriever_def Let_def r1 s2_def [symmetric] K2_def [symmetric])
qed


lemmas replay_eval = retrievalEnv_def replayDB_def firstAnswer_def secondAnswer_def indexOfAB_def
  emptyDatabase_def toolA_def toolB_def retriever_eval search_eval calculatedMD5_def
  generateToolMD5_def toolNameOf_def descriptionOf_def trim_eval md5hex_eval toFixed4_def
  recordSessionToolRetrieval_def Let_def

text \<open>
  Claim C2 says that after a retrieval with \<open>(D, sid)\<close> that returned \<open>N\<close> new tools, a
  retrieval with the same \<open>sid\<close> and \<open>D\<close> returns no new tool.  For an id without
  history, as for the empty id, each retrieval generates a new session and records the
  tools under the generated id: the second call with the id \<open>abc123\<close> reports the tool of
  the first call as new again, under another generated id.
\<close>

theorem retriever_replay_counterexample:
  "(let (db1, res1) = retriever retrievalEnv indexOfAB ''0.4fzyo82mvyr'' [''read docs''] ''abc123'' None;
        (db2, res2) = retriever retrievalEnv db1 ''0.8k2jx91qpl'' [''read docs''] ''abc123'' None
    in map_sum id (\<lambda>r. (session_id r, new_tools_count (summary r))) res1 = Inr (''4fzyo8'', 1)
       \<and> map_sum id (\<lambda>r. (session_id r, new_tools_count (summary r))) res2 = Inr (''8k2jx9'', 1))"
  by (simp add: replay_eval)

text \<open>
  Claim C2 as amended.  After a successful retrieval that returned a non-empty session id,
  a retrieval with that returned id and the same descriptions, on the database the first
  one left, succeeds, changes nothing, returns no new tool and counts at least as many
  known tools as the first counted new ones.  Every tool the first retrieval reports as
  new is in the session history, under the returned id, of the database it returns.
\<close>

theorem retriever_session_replay:
  "retriever env db rnd1 D sid sn = (db1, Inr r1) \<and> session_id r1 \<noteq> [] \<longrightarrow>
     (\<exists>r2. retriever env db1 rnd2 D (session_id r1) sn = (db1, Inr r2)
        \<and> new_tools r2 = [] \<and> new_tools_count (summary r2) = 0
        \<and> new_tools_count (summary r1) \<le> known_tools_count (summary r2))
     \<and> (\<forall>item \<in> set (new_tools r1). \<forall>tool \<in> set (qr_tools item).
          \<exists>h \<in> set (session_tool_history db1).
            sh_session_id h = session_id r1 \<and> sh_tool_md5 h = fi_md5 tool)"
proof (intro impI conjI ballI)
  assume a: "retriever env db rnd1 D sid sn = (db1, Inr r1) \<and> session_id r1 \<noteq> []"
  then show "\<exists>r2. retriever env db1 rnd2 D (session_id r1) sn = (db1, Inr r2)
        \<and> new_tools r2 = [] \<and> new_tools_count (summary r2) = 0
        \<and> new_tools_count (summary r1) \<le> known_tools_count (summary r2)"
    using retriever_replay(1) [of env db rnd1 D sid sn db1 r1 rnd2] by simp
  fix item tool
  assume "item \<in> set (new_tools r1)" and "tool \<in> set (qr_tools item)"
  then have "fi_md5 tool \<in> newMD5s (new_tools r1)"
    by (auto simp: newMD5s_def)
  with a retriever_replay(2) [of env db rnd1 D sid sn db1 r1]
  have "fi_md5 tool \<in> historyMD5s db1 (session_id r1)" by auto
  then show "\<exists>h \<in> set (session_tool_history db1).
      sh_session_id h = session_id r1 \<and> sh_tool_md5 h = fi_md5 tool"
    by (auto simp: historyMD5s_alt)
qed

theorem retriever_session_replay_witness:
  "retriever retrievalEnv indexOfAB ''0.4fzyo82mvyr'' [''read docs'', ''create block''] [] None
     = (replayDB, Inr firstAnswer)
   \<and> retriever retrievalEnv replayDB ''0.8k2jx91qpl'' [''read docs'', ''create block''] ''4fzyo8'' None
     = (replayDB, Inr secondAnswer)"
  using retriever_session_replay [where env = retrievalEnv and db = indexOfAB
      and ?rnd1.0 = "''0.4fzyo82mvyr''" and D = "[''read docs'', ''create block'']" and sid = "[]"
      and sn = None and ?db1.0 = replayDB and ?r1.0 = firstAnswer and ?rnd2.0 = "''0.8k2jx91qpl''"]
  by (simp add: replay_eval)


end
